theory Spec2Isabelle
  imports Main "HOL-Library.AList"
begin

section \<open>Common vocabulary\<close>

text \<open>
  The NestJS \<open>Logger\<close> of each class is a list of entries, oldest first.  An entry keeps
  the level and the message text; the optional stack argument of \<open>logger.error\<close> is
  not kept.
\<close>

datatype log_level = Log | Warn | Error | Debug

type_synonym log_entry = "log_level \<times> string"

text \<open>
  A thrown JavaScript \<open>Error\<close> object.  Every raise of the source and of the libraries
  it calls is a value of this type on the left of a sum.
\<close>

record js_error =
  message :: string
  stack :: string

text \<open>
  An optional string property is \<open>None\<close> when it is \<open>undefined\<close>.  JavaScript's
  truthiness test \<open>if (s)\<close> on such a property fails for \<open>undefined\<close> and for the
  empty string.
\<close>

definition truthy :: "string option \<Rightarrow> bool" where
  "truthy s = (case s of None \<Rightarrow> False | Some v \<Rightarrow> v \<noteq> [])"

text \<open>A bound method, identified by a number.\<close>

type_synonym handler = nat

section \<open>Schemas and plain objects used as shapes\<close>

text \<open>
  The validators of the schema library that the source builds: \<open>z.string()\<close> is
  \<open>ZodString None\<close>, \<open>z.string().describe(d)\<close> is \<open>ZodString (Some d)\<close>,
  \<open>schema.optional()\<close> is \<open>ZodOptional schema\<close>.  Any other validator a tool may
  carry in its parameter shape is \<open>ZodOther\<close>.
\<close>

datatype zod = ZodString "string option" | ZodOptional zod | ZodOther string

text \<open>
  A \<open>ZodRawShape\<close> is a plain object from property names to validators.  \<open>shape_own\<close>
  holds its own enumerable properties (the list stands for the set of properties; no
  definition below depends on its order), \<open>shape_proto\<close> a prototype installed by an
  assignment to the key \<open>__proto__\<close>, which in JavaScript runs the setter inherited from
  \<open>Object.prototype\<close> instead of creating a property.  What the accessors of an
  installed prototype do to later assignments is not modelled.
\<close>

record raw_shape =
  shape_own :: "(string \<times> zod) list"
  shape_proto :: "zod option"

definition empty_shape :: raw_shape where
  "empty_shape = \<lparr>shape_own = [], shape_proto = None\<rparr>"

definition js_assign :: "string \<Rightarrow> zod \<Rightarrow> raw_shape \<Rightarrow> raw_shape" where
  "js_assign k v obj =
     (if k = ''__proto__'' then obj\<lparr>shape_proto := Some v\<rparr>
      else obj\<lparr>shape_own := AList.update k v (shape_own obj)\<rparr>)"

definition object_keys :: "raw_shape \<Rightarrow> string list" where
  "object_keys obj = map fst (shape_own obj)"

section \<open>The protocol engine, seen from the coordinator\<close>

text \<open>
  \<open>McpServer\<close> belongs to the protocol SDK, not to this repository.  The model keeps of
  it what the repository hands over: the implementation info and options it was built
  with, the registration calls it has received, one constructor per overload the source
  uses, and the transports it was asked to connect.
\<close>

record implementation =
  impl_name :: string
  impl_version :: string

type_synonym server_options = nat

type_synonym resource_metadata = "(string \<times> string) list"

datatype resource_template = ResourceTemplate string "nat option"

datatype engine_call =
    Resource_uri string "string option" resource_metadata handler
  | Resource_template string resource_template resource_metadata handler
  | Prompt_plain string string handler
  | Prompt_args string string raw_shape handler
  | Tool_desc_schema string string raw_shape handler
  | Tool_schema string raw_shape handler
  | Tool_desc string string handler
  | Tool_plain string handler

datatype transport_ref = Stdio_transport | Sse_transport string

record mcp_server =
  server_info :: implementation
  server_options :: "server_options option"
  registered :: "engine_call list"
  connect_calls :: "transport_ref list"

definition McpServer :: "implementation \<Rightarrow> server_options option \<Rightarrow> mcp_server" where
  "McpServer info opts =
     \<lparr>server_info = info, server_options = opts, registered = [], connect_calls = []\<rparr>"

section \<open>Module options\<close>

datatype transport_type = STDIO | SSE | NONE

record mcp_module_options =
  serverInfo :: "implementation option"
  serverOptions :: "server_options option"
  transport :: "transport_type option"

section \<open>McpService\<close>

record mcp_service =
  logger :: "log_entry list"
  server :: mcp_server

definition log_to :: "log_level \<Rightarrow> string \<Rightarrow> mcp_service \<Rightarrow> mcp_service" where
  "log_to lvl msg svc = svc\<lparr>logger := logger svc @ [(lvl, msg)]\<rparr>"

definition engine_register :: "engine_call \<Rightarrow> mcp_service \<Rightarrow> mcp_service" where
  "engine_register c svc =
     svc\<lparr>server := (server svc)\<lparr>registered := registered (server svc) @ [c]\<rparr>\<rparr>"

definition default_info :: implementation where
  "default_info = \<lparr>impl_name = ''nestjs-mcp-server'', impl_version = ''0.0.1''\<rparr>"

definition McpService_constructor :: "mcp_module_options \<Rightarrow> mcp_service" where
  "McpService_constructor moduleOptions =
     (let info = (case serverInfo moduleOptions of Some i \<Rightarrow> i | None \<Rightarrow> default_info);
          options = serverOptions moduleOptions
      in \<lparr>logger = [(Log, ''McpServer instance created.'')],
          server = McpServer info options\<rparr>)"

definition getServer :: "mcp_service \<Rightarrow> mcp_server" where
  "getServer svc = server svc"

subsection \<open>registerResource\<close>

text \<open>
  \<open>ResourceOptions\<close> is the union of the fixed and the template variant; as a record
  it has the fields of both, each absent (\<open>None\<close>) or present.  A \<open>uriTemplate\<close> that is
  present holds a string, a \<open>ResourceTemplate\<close> instance, or a value of another type
  (\<open>undefined\<close> included: the \<open>in\<close> test of \<open>isTemplateResource\<close> asks for the
  field, not for its value).
\<close>

datatype uri_template_value =
    UT_string string
  | UT_instance resource_template
  | UT_other

record resource_options =
  res_name :: "string option"
  res_uri :: "string option"
  res_uriTemplate :: "uri_template_value option"
  res_metadata :: "resource_metadata option"

definition isTemplateResource :: "resource_options \<Rightarrow> bool" where
  "isTemplateResource options = (res_uriTemplate options \<noteq> None)"

text \<open>
  \<open>new ResourceTemplate(s, ...)\<close> parses the string, and the SDK's parser raises on a
  malformed template.  The parser is not part of the repository: \<open>uriTemplateError s\<close> is
  the error it raises on \<open>s\<close>, if it does.  The source has no \<open>try\<close> around the
  constructor, so the error leaves \<open>registerResource\<close>.
\<close>

definition new_ResourceTemplate ::
  "(string \<Rightarrow> js_error option) \<Rightarrow> string \<Rightarrow> js_error + resource_template" where
  "new_ResourceTemplate uriTemplateError s =
     (case uriTemplateError s of
        Some e \<Rightarrow> Inl e
      | None \<Rightarrow> Inr (ResourceTemplate s None))"

definition registerResource ::
  "(string \<Rightarrow> js_error option) \<Rightarrow> resource_options \<Rightarrow> handler \<Rightarrow> mcp_service \<Rightarrow>
   js_error + mcp_service" where
  "registerResource uriTemplateError definition h svc =
     (case res_name definition of
        None \<Rightarrow>
          Inr (log_to Warn ''Resource missing required name. Skipping registration.'' svc)
      | Some name \<Rightarrow>
          if name = [] then
            Inr (log_to Warn ''Resource missing required name. Skipping registration.'' svc)
          else
            let svc1 = log_to Log (''Registering resource: '' @ name) svc;
                metadata = (case res_metadata definition of Some m \<Rightarrow> m | None \<Rightarrow> [])
            in if isTemplateResource definition then
                 (case res_uriTemplate definition of
                    Some (UT_string s) \<Rightarrow>
                      (case new_ResourceTemplate uriTemplateError s of
                         Inl e \<Rightarrow> Inl e
                       | Inr template \<Rightarrow>
                           Inr (engine_register
                                  (Resource_template name template metadata h) svc1))
                  | Some (UT_instance t) \<Rightarrow>
                      Inr (engine_register (Resource_template name t metadata h) svc1)
                  | _ \<Rightarrow>
                      Inr (log_to Error ''Invalid uriTemplate type for template resource.''
                             svc1))
               else
                 Inr (engine_register (Resource_uri name (res_uri definition) metadata h)
                        svc1))"

subsection \<open>registerPrompt\<close>

record prompt_argument =
  arg_name :: "string option"
  arg_description :: "string option"
  arg_required :: "bool option"

record prompt_type =
  prompt_name :: "string option"
  prompt_description :: "string option"
  prompt_arguments :: "prompt_argument list option"

text \<open>The schema one named argument gets: lines 166 to 174 of the service.\<close>

definition argument_schema :: "prompt_argument \<Rightarrow> zod" where
  "argument_schema arg =
     (let schema = (if truthy (arg_description arg) then ZodString (arg_description arg)
                    else ZodString None)
      in if arg_required arg = Some True then schema else ZodOptional schema)"

definition nameless_warning :: "string \<Rightarrow> string" where
  "nameless_warning name =
     ''Prompt \"'' @ name @ ''\" has an argument without a name. Skipping argument.''"

definition empty_schema_warning :: "string \<Rightarrow> string" where
  "empty_schema_warning name =
     ''Prompt \"'' @ name @
     ''\" arguments processing resulted in empty schema. Registering as no-argument prompt.''"

text \<open>The \<open>for ... of\<close> loop over the declared arguments, with its \<open>continue\<close>.\<close>

fun argsSchema_loop ::
  "string \<Rightarrow> prompt_argument list \<Rightarrow> raw_shape \<Rightarrow> mcp_service \<Rightarrow> raw_shape \<times> mcp_service" where
  "argsSchema_loop name [] argsSchema svc = (argsSchema, svc)"
| "argsSchema_loop name (arg # rest) argsSchema svc =
     (case arg_name arg of
        None \<Rightarrow> argsSchema_loop name rest argsSchema (log_to Warn (nameless_warning name) svc)
      | Some k \<Rightarrow>
          if k = [] then
            argsSchema_loop name rest argsSchema (log_to Warn (nameless_warning name) svc)
          else
            argsSchema_loop name rest (js_assign k (argument_schema arg) argsSchema) svc)"

definition registerPrompt :: "prompt_type \<Rightarrow> handler \<Rightarrow> mcp_service \<Rightarrow> mcp_service" where
  "registerPrompt definition h svc =
     (case prompt_name definition of
        None \<Rightarrow> log_to Warn ''Prompt missing required name. Skipping registration.'' svc
      | Some name \<Rightarrow>
          if name = [] then
            log_to Warn ''Prompt missing required name. Skipping registration.'' svc
          else
            let svc1 = log_to Log (''Registering prompt: '' @ name) svc;
                description = (if truthy (prompt_description definition)
                               then the (prompt_description definition) else [])
            in (case prompt_arguments definition of
                  None \<Rightarrow> engine_register (Prompt_plain name description h) svc1
                | Some args \<Rightarrow>
                    if length args = 0 then
                      engine_register (Prompt_plain name description h) svc1
                    else
                      (case argsSchema_loop name args empty_shape svc1 of
                         (argsSchema, svc2) \<Rightarrow>
                           if length (object_keys argsSchema) = 0 then
                             engine_register (Prompt_plain name description h)
                               (log_to Warn (empty_schema_warning name) svc2)
                           else
                             engine_register (Prompt_args name description argsSchema h) svc2)))"

subsection \<open>registerTool\<close>

record tool_options =
  tool_name :: "string option"
  tool_description :: "string option"
  tool_paramsSchema :: "raw_shape option"

definition shape_nonempty :: "raw_shape option \<Rightarrow> bool" where
  "shape_nonempty paramsSchema =
     (case paramsSchema of None \<Rightarrow> False | Some s \<Rightarrow> length (object_keys s) > 0)"

text \<open>
  The source tests \<open>!definition\<close> before \<open>!definition.name\<close>, so the definition
  itself may be \<open>undefined\<close> here.
\<close>

definition registerTool :: "tool_options option \<Rightarrow> handler \<Rightarrow> mcp_service \<Rightarrow> mcp_service" where
  "registerTool definition h svc =
     (case definition of
        None \<Rightarrow> log_to Warn ''Tool definition missing required name. Skipping registration.'' svc
      | Some d \<Rightarrow>
          if \<not> truthy (tool_name d) then
            log_to Warn ''Tool definition missing required name. Skipping registration.'' svc
          else
            let name = the (tool_name d);
                svc1 = log_to Log (''Registering tool: '' @ name) svc;
                description = tool_description d;
                paramsSchema = tool_paramsSchema d
            in if shape_nonempty paramsSchema then
                 (if truthy description then
                    engine_register
                      (Tool_desc_schema name (the description) (the paramsSchema) h) svc1
                  else
                    engine_register (Tool_schema name (the paramsSchema) h) svc1)
               else
                 (if truthy description then
                    engine_register (Tool_desc name (the description) h) svc1
                  else
                    engine_register (Tool_plain name h) svc1))"

section \<open>McpHttpService\<close>

subsection \<open>Requests, responses and transports\<close>

text \<open>
  The part of an Express request the service reads: \<open>req.query.sessionId\<close>, typed
  \<open>string\<close> by the source and \<open>undefined\<close> when the parameter is missing.
\<close>

record request =
  query_sessionId :: "string option"
  payload :: string

text \<open>
  An \<open>SSEServerTransport\<close>, as far as the service looks at it: the session identifier its
  constructor drew and the endpoint it was given.
\<close>

record sse_transport =
  sessionId :: string
  endpoint :: string

definition SSEServerTransport :: "string \<Rightarrow> string \<Rightarrow> sse_transport" where
  "SSEServerTransport ep sid = \<lparr>sessionId = sid, endpoint = ep\<rparr>"

text \<open>
  An Express response: whether headers went out, the status code, the chunks written,
  whether it was ended, and the transports whose \<open>close\<close> listener \<open>res.on\<close> installed.
\<close>

record response =
  headersSent :: bool
  statusCode :: nat
  written :: "string list"
  writableEnded :: bool
  close_listeners :: "sse_transport list"

definition ERR_HTTP_HEADERS_SENT :: js_error where
  "ERR_HTTP_HEADERS_SENT =
     \<lparr>message = ''Cannot set headers after they are sent to the client'', stack = []\<rparr>"

text \<open>
  \<open>res.status(code).send(text)\<close>: \<open>send\<close> sets a header first, which raises when the
  headers are already out.
\<close>

definition status_send :: "nat \<Rightarrow> string \<Rightarrow> response \<Rightarrow> js_error + response" where
  "status_send code text res =
     (if headersSent res then Inl ERR_HTTP_HEADERS_SENT
      else Inr (res\<lparr>headersSent := True, statusCode := code,
                     written := written res @ [text], writableEnded := True\<rparr>))"

text \<open>\<open>res.end()\<close> with no argument: the stream is finished, nothing is written.\<close>

definition end_response :: "response \<Rightarrow> response" where
  "end_response res = res\<lparr>headersSent := True, writableEnded := True\<rparr>"

text \<open>
  What the SDK does when called is not part of the repository; the service's functions
  take it as a parameter.  \<open>handlePostMessage\<close> and \<open>server_connect\<close> may write to the
  response and may raise (\<open>Some\<close> error); \<open>transport_close\<close> gives the reason the promise of
  \<open>transport.close()\<close> rejects with, if it does.
\<close>

record sdk =
  handlePostMessage :: "sse_transport \<Rightarrow> request \<Rightarrow> response \<Rightarrow> js_error option \<times> response"
  server_connect :: "mcp_server \<Rightarrow> sse_transport \<Rightarrow> response \<Rightarrow> js_error option \<times> response"
  transport_close :: "sse_transport \<Rightarrow> js_error option"

subsection \<open>The session registry\<close>

text \<open>
  \<open>transports\<close> is initialised with the object literal \<open>{}\<close>, so its prototype is
  \<open>Object.prototype\<close>.  The list holds its own properties.  Reading \<open>obj[k]\<close> finds an
  own property first, then a property of \<open>Object.prototype\<close> (all of them functions or
  objects, hence truthy), and is \<open>undefined\<close> otherwise.  Session identifiers are drawn by
  the transport's constructor as UUIDs, so inserting one always makes an own property.
\<close>

definition object_prototype_keys :: "string list" where
  "object_prototype_keys =
     [''constructor'', ''__defineGetter__'', ''__defineSetter__'', ''hasOwnProperty'',
      ''__lookupGetter__'', ''__lookupSetter__'', ''isPrototypeOf'',
      ''propertyIsEnumerable'', ''toString'', ''valueOf'', ''__proto__'',
      ''toLocaleString'']"

datatype 'v js_property = Own 'v | Inherited string | Undefined

definition js_get :: "(string \<times> 'v) list \<Rightarrow> string \<Rightarrow> 'v js_property" where
  "js_get obj k =
     (case map_of obj k of
        Some v \<Rightarrow> Own v
      | None \<Rightarrow> if k \<in> set object_prototype_keys then Inherited k else Undefined)"

text \<open>
  \<open>mcpService_server\<close> is what \<open>this.mcpService.getServer()\<close> yields.  \<open>handleSSE\<close>
  tests it for absence, so the injected service is taken as given here.
\<close>

record mcp_http_service =
  http_logger :: "log_entry list"
  transports :: "(string \<times> sse_transport) list"
  mcpService_server :: "mcp_server option"

definition http_log :: "log_level \<Rightarrow> string \<Rightarrow> mcp_http_service \<Rightarrow> mcp_http_service" where
  "http_log lvl msg svc = svc\<lparr>http_logger := http_logger svc @ [(lvl, msg)]\<rparr>"

subsection \<open>handleSSE\<close>

text \<open>
  The listener installed with \<open>res.on("close", ...)\<close>.  Its synchronous part logs and
  deletes the registry entry; \<open>transport.close()\<close> is then started, and the \<open>catch\<close>
  callback runs once that promise has settled.
\<close>

definition close_listener_sync :: "sse_transport \<Rightarrow> mcp_http_service \<Rightarrow> mcp_http_service" where
  "close_listener_sync t svc =
     (let svc1 = http_log Log (''SSE connection closed: '' @ sessionId t) svc
      in svc1\<lparr>transports := AList.delete (sessionId t) (transports svc1)\<rparr>)"

definition close_listener_settled ::
  "sdk \<Rightarrow> sse_transport \<Rightarrow> mcp_http_service \<Rightarrow> mcp_http_service" where
  "close_listener_settled ext t svc =
     (case transport_close ext t of
        None \<Rightarrow> svc
      | Some err \<Rightarrow> http_log Error ''Error closing transport on disconnect:'' svc)"

definition close_listener :: "sdk \<Rightarrow> sse_transport \<Rightarrow> mcp_http_service \<Rightarrow> mcp_http_service" where
  "close_listener ext t svc = close_listener_settled ext t (close_listener_sync t svc)"

text \<open>The \<open>close\<close> event of a response runs its listeners in the order they were added.\<close>

definition emit_close :: "sdk \<Rightarrow> response \<Rightarrow> mcp_http_service \<Rightarrow> mcp_http_service" where
  "emit_close ext res svc = fold (close_listener ext) (close_listeners res) svc"

text \<open>The \<open>catch\<close> block of \<open>handleSSE\<close>.\<close>

definition handleSSE_catch ::
  "js_error \<Rightarrow> response \<Rightarrow> mcp_http_service \<Rightarrow> js_error + response \<times> mcp_http_service" where
  "handleSSE_catch error res svc =
     (let svc1 = http_log Error
                   (''Error in SSE connection or during connect: '' @ message error) svc
      in if \<not> headersSent res then
           (case status_send 500 ''Error establishing SSE connection'' res of
              Inl e \<Rightarrow> Inl e
            | Inr res' \<Rightarrow> Inr (res', svc1))
         else Inr (end_response res, svc1))"

text \<open>
  \<open>sid\<close> is the identifier the transport's constructor draws.  A call of
  \<open>server.connect\<close> is recorded in the engine before its outcome is known.
\<close>

definition handleSSE ::
  "sdk \<Rightarrow> string \<Rightarrow> response \<Rightarrow> mcp_http_service \<Rightarrow> js_error + response \<times> mcp_http_service" where
  "handleSSE ext sid res svc =
     (let tr = SSEServerTransport ''/api/mcp/messages'' sid;
          session = sessionId tr;
          svc1 = svc\<lparr>transports := AList.update session tr (transports svc)\<rparr>;
          svc2 = http_log Log (''New SSE connection established: '' @ session) svc1;
          res1 = res\<lparr>close_listeners := close_listeners res @ [tr]\<rparr>
      in case mcpService_server svc2 of
           None \<Rightarrow>
             (let svc3 = http_log Error ''MCP Server instance is not available.'' svc2
              in if \<not> headersSent res1 then
                   (case status_send 500 ''MCP Server not initialized'' res1 of
                      Inl e \<Rightarrow> handleSSE_catch e res1 svc3
                    | Inr res2 \<Rightarrow> Inr (res2, svc3))
                 else Inr (res1, svc3))
         | Some srv \<Rightarrow>
             (let svc3 = svc2\<lparr>mcpService_server :=
                           Some (srv\<lparr>connect_calls :=
                                        connect_calls srv @ [Sse_transport session]\<rparr>)\<rparr>
              in case server_connect ext srv tr res1 of
                   (None, res2) \<Rightarrow> Inr (res2, svc3)
                 | (Some error, res2) \<Rightarrow> handleSSE_catch error res2 svc3))"

subsection \<open>handleMessage\<close>

text \<open>
  The \<open>catch\<close> block around the delegation.  When the registry lookup found an inherited
  property of \<open>Object.prototype\<close>, that value has no \<open>handlePostMessage\<close>, and calling it
  raises this \<open>TypeError\<close> inside the \<open>try\<close>.
\<close>

definition not_a_function :: js_error where
  "not_a_function =
     \<lparr>message = ''transport.handlePostMessage is not a function'', stack = []\<rparr>"

definition handleMessage_catch ::
  "string \<Rightarrow> js_error \<Rightarrow> response \<Rightarrow> mcp_http_service \<Rightarrow> js_error + response \<times> mcp_http_service" where
  "handleMessage_catch session error res svc =
     (let svc1 = http_log Error
                   (''Error handling message for session '' @ session @ '': '' @ message error)
                   svc
      in if \<not> headersSent res then
           (case status_send 500 ''Error processing message'' res of
              Inl e \<Rightarrow> Inl e
            | Inr res' \<Rightarrow> Inr (res', svc1))
         else Inr (res, svc1))"

definition handleMessage_missing ::
  "response \<Rightarrow> mcp_http_service \<Rightarrow> js_error + response \<times> mcp_http_service" where
  "handleMessage_missing res svc =
     (let svc1 = http_log Warn ''Message received without sessionId'' svc
      in case status_send 400 ''Missing sessionId parameter'' res of
           Inl e \<Rightarrow> Inl e
         | Inr res' \<Rightarrow> Inr (res', svc1))"

definition handleMessage ::
  "sdk \<Rightarrow> request \<Rightarrow> response \<Rightarrow> mcp_http_service \<Rightarrow> js_error + response \<times> mcp_http_service" where
  "handleMessage ext req res svc =
     (case query_sessionId req of
        None \<Rightarrow> handleMessage_missing res svc
      | Some session \<Rightarrow>
          if session = [] then handleMessage_missing res svc
          else
            (case js_get (transports svc) session of
               Own tr \<Rightarrow>
                 (case handlePostMessage ext tr req res of
                    (None, res') \<Rightarrow> Inr (res', svc)
                  | (Some error, res') \<Rightarrow> handleMessage_catch session error res' svc)
             | Inherited k \<Rightarrow> handleMessage_catch session not_a_function res svc
             | Undefined \<Rightarrow>
                 (let svc1 = http_log Warn
                               (''No active transport found for sessionId: '' @ session) svc
                  in case status_send 404 ''No connection found for this sessionId'' res of
                       Inl e \<Rightarrow> Inl e
                     | Inr res' \<Rightarrow> Inr (res', svc1))))"

section \<open>ExplorerService\<close>

text \<open>
  What the scan sees of a provider instance.  \<open>Falsy\<close> is \<open>null\<close>, \<open>undefined\<close> or
  another falsy value; \<open>Non_object\<close> is a truthy value whose \<open>typeof\<close> is not
  \<open>'object'\<close> (a string, a number, a function).  An \<open>Object\<close> carries whether
  \<open>instance.constructor\<close> is truthy and, for every name that
  \<open>metadataScanner.getAllMethodNames(prototype)\<close> lists, what reading
  \<open>instance[methodName]\<close> does: it raises, or gives a falsy value, or gives a handler.
\<close>

datatype member = Member_throws js_error | Member_falsy | Member_value handler

datatype instance_value = Falsy | Non_object | Object bool "(string \<times> member) list"

record instance_wrapper =
  wrapper_instance :: instance_value

record nest_module =
  providers :: "instance_wrapper list"

record 'o metadata_base =
  methodName :: string
  options :: "'o option"

record 'o discovered_item =
  item_instance :: instance_value
  item_handler :: handler
  item_metadata :: "'o metadata_base"

text \<open>
  \<open>reflector.get(metadataKey, handler)\<close> is the parameter \<open>get\<close>: it raises, or finds
  nothing, or finds the metadata the decorator stored.  The inner \<open>forEach\<close> over the
  method names and the outer one over the components follow; neither has a \<open>try\<close>, so a
  raise leaves both loops and \<open>explore\<close>.
\<close>

fun scan_methods ::
  "(string \<Rightarrow> handler \<Rightarrow> js_error + 'o metadata_base option) \<Rightarrow> string \<Rightarrow> instance_value \<Rightarrow>
   (string \<times> member) list \<Rightarrow> 'o discovered_item list \<Rightarrow> js_error + 'o discovered_item list" where
  "scan_methods get metadataKey inst [] discovered = Inr discovered"
| "scan_methods get metadataKey inst ((name, m) # rest) discovered =
     (case m of
        Member_throws e \<Rightarrow> Inl e
      | Member_falsy \<Rightarrow> scan_methods get metadataKey inst rest discovered
      | Member_value h \<Rightarrow>
          (case get metadataKey h of
             Inl e \<Rightarrow> Inl e
           | Inr None \<Rightarrow> scan_methods get metadataKey inst rest discovered
           | Inr (Some metadata) \<Rightarrow>
               scan_methods get metadataKey inst rest
                 (discovered @
                    [\<lparr>item_instance = inst, item_handler = h, item_metadata = metadata\<rparr>])))"

fun scan_components ::
  "(string \<Rightarrow> handler \<Rightarrow> js_error + 'o metadata_base option) \<Rightarrow> string \<Rightarrow>
   instance_wrapper list \<Rightarrow> 'o discovered_item list \<Rightarrow> js_error + 'o discovered_item list" where
  "scan_components get metadataKey [] discovered = Inr discovered"
| "scan_components get metadataKey (wrapper # rest) discovered =
     (case wrapper_instance wrapper of
        Falsy \<Rightarrow> scan_components get metadataKey rest discovered
      | Non_object \<Rightarrow> scan_components get metadataKey rest discovered
      | Object has_constructor methodNames \<Rightarrow>
          if \<not> has_constructor then scan_components get metadataKey rest discovered
          else
            (case scan_methods get metadataKey (wrapper_instance wrapper) methodNames
                    discovered of
               Inl e \<Rightarrow> Inl e
             | Inr discovered' \<Rightarrow> scan_components get metadataKey rest discovered'))"

definition explore ::
  "(string \<Rightarrow> handler \<Rightarrow> js_error + 'o metadata_base option) \<Rightarrow> nest_module list \<Rightarrow> string \<Rightarrow>
   js_error + 'o discovered_item list" where
  "explore get modules metadataKey =
     (let components =
            filter (\<lambda>wrapper. wrapper_instance wrapper \<noteq> Falsy) (concat (map providers modules))
      in scan_components get metadataKey components [])"

text \<open>
  The service with its three entry points.  The single untyped \<open>reflector\<close> of the source
  appears once per kind of options it is read at; the three metadata keys come from the
  decorators' constants, which the service imports.
\<close>

record explorer_service =
  modulesContainer :: "nest_module list"
  MCP_RESOURCE_METADATA :: string
  MCP_TOOL_METADATA :: string
  MCP_PROMPT_METADATA :: string
  reflect_resource :: "string \<Rightarrow> handler \<Rightarrow> js_error + resource_options metadata_base option"
  reflect_tool :: "string \<Rightarrow> handler \<Rightarrow> js_error + tool_options metadata_base option"
  reflect_prompt :: "string \<Rightarrow> handler \<Rightarrow> js_error + prompt_type metadata_base option"

definition exploreResources ::
  "explorer_service \<Rightarrow> js_error + resource_options discovered_item list" where
  "exploreResources ex =
     explore (reflect_resource ex) (modulesContainer ex) (MCP_RESOURCE_METADATA ex)"

definition exploreTools :: "explorer_service \<Rightarrow> js_error + tool_options discovered_item list" where
  "exploreTools ex = explore (reflect_tool ex) (modulesContainer ex) (MCP_TOOL_METADATA ex)"

definition explorePrompts :: "explorer_service \<Rightarrow> js_error + prompt_type discovered_item list" where
  "explorePrompts ex =
     explore (reflect_prompt ex) (modulesContainer ex) (MCP_PROMPT_METADATA ex)"

section \<open>McpModule\<close>

record mcp_module =
  module_logger :: "log_entry list"
  explorerService :: explorer_service
  mcpService :: mcp_service
  module_options :: mcp_module_options

definition module_log :: "log_level \<Rightarrow> string \<Rightarrow> mcp_module \<Rightarrow> mcp_module" where
  "module_log lvl msg m = m\<lparr>module_logger := module_logger m @ [(lvl, msg)]\<rparr>"

subsection \<open>registerMcpHandlers\<close>

text \<open>
  \<open>registerResource\<close> is handed \<open>metadata.options\<close> unchecked; reading \<open>.name\<close> of
  \<open>undefined\<close> raises.  The tool and prompt loops test \<open>metadata.options?.name\<close>
  first.  A bound method's \<open>name\<close> is \<open>bound\<close> followed by the method's name.
\<close>

definition reading_name_of_undefined :: js_error where
  "reading_name_of_undefined =
     \<lparr>message = ''Cannot read properties of undefined (reading 'name')'', stack = []\<rparr>"

fun register_resources ::
  "(string \<Rightarrow> js_error option) \<Rightarrow> resource_options discovered_item list \<Rightarrow> mcp_module \<Rightarrow>
   js_error + mcp_module" where
  "register_resources uriTemplateError [] m = Inr m"
| "register_resources uriTemplateError (item # rest) m =
     (let metadata = item_metadata item;
          label = (case options metadata of
                     None \<Rightarrow> methodName metadata
                   | Some d \<Rightarrow> if truthy (res_name d) then the (res_name d)
                               else methodName metadata);
          m1 = module_log Debug (''Registering resource from handler: '' @ label) m
      in case options metadata of
           None \<Rightarrow> Inl reading_name_of_undefined
         | Some d \<Rightarrow>
             (case registerResource uriTemplateError d (item_handler item) (mcpService m1) of
                Inl e \<Rightarrow> Inl e
              | Inr svc' \<Rightarrow>
                  register_resources uriTemplateError rest (m1\<lparr>mcpService := svc'\<rparr>)))"

fun register_tools :: "tool_options discovered_item list \<Rightarrow> mcp_module \<Rightarrow> mcp_module" where
  "register_tools [] m = m"
| "register_tools (item # rest) m =
     (let metadata = item_metadata item;
          skip = module_log Warn
                   (''Tool handler bound '' @ methodName metadata @
                    '' is missing required 'name' in options. Skipping registration.'') m
      in case options metadata of
           None \<Rightarrow> register_tools rest skip
         | Some d \<Rightarrow>
             if \<not> truthy (tool_name d) then register_tools rest skip
             else
               (let m1 = module_log Debug
                           (''Registering tool from handler: '' @ the (tool_name d)) m
                in register_tools rest
                     (m1\<lparr>mcpService :=
                           registerTool (Some d) (item_handler item) (mcpService m1)\<rparr>)))"

fun register_prompts :: "prompt_type discovered_item list \<Rightarrow> mcp_module \<Rightarrow> mcp_module" where
  "register_prompts [] m = m"
| "register_prompts (item # rest) m =
     (let metadata = item_metadata item;
          skip = module_log Warn
                   (''Prompt handler bound '' @ methodName metadata @
                    '' is missing required 'name' in options. Skipping registration.'') m
      in case options metadata of
           None \<Rightarrow> register_prompts rest skip
         | Some d \<Rightarrow>
             if \<not> truthy (prompt_name d) then register_prompts rest skip
             else
               (let m1 = module_log Debug
                           (''Registering prompt from handler: '' @ the (prompt_name d)) m
                in register_prompts rest
                     (m1\<lparr>mcpService :=
                           registerPrompt d (item_handler item) (mcpService m1)\<rparr>)))"

definition registerMcpHandlers ::
  "(string \<Rightarrow> js_error option) \<Rightarrow> mcp_module \<Rightarrow> js_error + mcp_module" where
  "registerMcpHandlers uriTemplateError m =
     (case exploreResources (explorerService m) of
        Inl e \<Rightarrow> Inl e
      | Inr resources \<Rightarrow>
          (case register_resources uriTemplateError resources m of
             Inl e \<Rightarrow> Inl e
           | Inr m1 \<Rightarrow>
               (case exploreTools (explorerService m1) of
                  Inl e \<Rightarrow> Inl e
                | Inr tools \<Rightarrow>
                    (let m2 = register_tools tools m1
                     in case explorePrompts (explorerService m2) of
                          Inl e \<Rightarrow> Inl e
                        | Inr prompts \<Rightarrow> Inr (register_prompts prompts m2)))))"

subsection \<open>onApplicationBootstrap\<close>

text \<open>
  \<open>connect_stdio\<close> is the outcome of \<open>server.connect(new StdioServerTransport())\<close>, the
  error it rejects with if it does.  The call is recorded in the engine.
  \<open>uriTemplateError\<close> is the template parser \<open>registerResource\<close> needs.
\<close>

definition onApplicationBootstrap ::
  "(string \<Rightarrow> js_error option) \<Rightarrow> (mcp_server \<Rightarrow> js_error option) \<Rightarrow> mcp_module \<Rightarrow>
   js_error + mcp_module" where
  "onApplicationBootstrap uriTemplateError connect_stdio m =
     (let m1 = module_log Log ''Bootstrapping MCP Module...'' m
      in case registerMcpHandlers uriTemplateError m1 of
           Inl e \<Rightarrow> Inl e
         | Inr m2 \<Rightarrow>
             (let m3 = module_log Log ''MCP Handlers registered.'' m2;
                  m4 =
                    (if transport (module_options m3) \<noteq> None \<and>
                        transport (module_options m3) = Some STDIO
                     then
                       (let srv = getServer (mcpService m3);
                            m' = m3\<lparr>mcpService := (mcpService m3)\<lparr>server :=
                                   srv\<lparr>connect_calls :=
                                         connect_calls srv @ [Stdio_transport]\<rparr>\<rparr>\<rparr>
                        in case connect_stdio srv of
                             None \<Rightarrow>
                               module_log Log ''McpServer connected to stdio transport.'' m'
                           | Some error \<Rightarrow>
                               module_log Error
                                 ''Failed to connect McpServer to stdio transport:'' m')
                     else
                       module_log Log
                         ''MCP Module configured for non-stdio transport (e.g., SSE/HTTP or custom). No automatic connection needed here.''
                         m3)
              in Inr (module_log Log ''MCP Module bootstrapped successfully.'' m4)))"

section \<open>Auxiliary definitions and concrete inputs\<close>

text \<open>The last argument of a list that carries a given name, if there is one.\<close>

fun last_named :: "string \<Rightarrow> prompt_argument list \<Rightarrow> prompt_argument option" where
  "last_named k [] = None"
| "last_named k (a # as) =
     (case last_named k as of
        Some b \<Rightarrow> Some b
      | None \<Rightarrow> if arg_name a = Some k then Some a else None)"

text \<open>A freshly constructed service, and a prompt with one nameless argument.\<close>

definition svc0 :: mcp_service where
  "svc0 = McpService_constructor \<lparr>serverInfo = None, serverOptions = None, transport = None\<rparr>"

definition demo_args :: "prompt_argument list" where
  "demo_args =
     [\<lparr>arg_name = Some ''a'', arg_description = None, arg_required = Some True\<rparr>,
      \<lparr>arg_name = None, arg_description = None, arg_required = Some True\<rparr>,
      \<lparr>arg_name = Some ''b'', arg_description = Some ''x'', arg_required = Some False\<rparr>]"

definition demo_prompt :: prompt_type where
  "demo_prompt = \<lparr>prompt_name = Some ''p'', prompt_description = Some ''d'',
     prompt_arguments = Some demo_args\<rparr>"

text \<open>
  A template parser that raises on a string with an opening brace and no closing one, as
  the SDK's parser does, and accepts every other string.
\<close>

definition unclosed_template :: js_error where
  "unclosed_template = \<lparr>message = ''Unclosed template expression'', stack = []\<rparr>"

definition brace_check :: "string \<Rightarrow> js_error option" where
  "brace_check s =
     (if CHR ''{'' \<in> set s \<and> CHR ''}'' \<notin> set s then Some unclosed_template else None)"

text \<open>
  An SDK whose calls all succeed, one whose \<open>connect\<close> fails after the headers went
  out, one whose \<open>close\<close> rejects, a response nothing was written to, and service
  states.
\<close>

definition accepting_sdk :: sdk where
  "accepting_sdk =
     \<lparr>handlePostMessage = (\<lambda>t req res.
         (None, res\<lparr>headersSent := True, statusCode := 202,
                    written := written res @ [''Accepted''], writableEnded := True\<rparr>)),
      server_connect = (\<lambda>srv t res. (None, res\<lparr>headersSent := True, statusCode := 200\<rparr>)),
      transport_close = (\<lambda>t. None)\<rparr>"

definition fresh_response :: response where
  "fresh_response =
     \<lparr>headersSent = False, statusCode = 200, written = [], writableEnded = False,
      close_listeners = []\<rparr>"

definition empty_http_service :: mcp_http_service where
  "empty_http_service =
     \<lparr>http_logger = [], transports = [], mcpService_server = Some (server svc0)\<rparr>"

definition rejecting_close_sdk :: sdk where
  "rejecting_close_sdk =
     accepting_sdk\<lparr>transport_close := (\<lambda>t. Some \<lparr>message = ''already closed'', stack = []\<rparr>)\<rparr>"

definition one_session :: mcp_http_service where
  "one_session =
     \<lparr>http_logger = [],
      transports = [(''s2'', SSEServerTransport ''/api/mcp/messages'' ''s2'')],
      mcpService_server = Some (server svc0)\<rparr>"

definition no_engine_service :: mcp_http_service where
  "no_engine_service = \<lparr>http_logger = [], transports = [], mcpService_server = None\<rparr>"

definition failing_connect_sdk :: sdk where
  "failing_connect_sdk =
     accepting_sdk\<lparr>server_connect := (\<lambda>srv t res.
        (Some \<lparr>message = ''connection reset'', stack = []\<rparr>,
         res\<lparr>headersSent := True, statusCode := 200\<rparr>))\<rparr>"

text \<open>
  What a scan yields when nothing raises, written without the loops.  \<open>raises\<close> tells
  whether reading a method or looking up its metadata raises; \<open>scanned_methods\<close> are the
  methods of a component the scan looks at, none for an instance it skips;
  \<open>component_items\<close> are the items of one component, in the order of its methods;
  \<open>scannable\<close> holds for an object with a constructor, the only instances the scan
  does not skip.
\<close>

fun raises ::
  "(string \<Rightarrow> handler \<Rightarrow> js_error + 'o metadata_base option) \<Rightarrow> string \<Rightarrow> string \<times> member \<Rightarrow> bool" where
  "raises get metadataKey (name, Member_throws e) = True"
| "raises get metadataKey (name, Member_falsy) = False"
| "raises get metadataKey (name, Member_value h) = isl (get metadataKey h)"

fun method_items ::
  "(string \<Rightarrow> handler \<Rightarrow> js_error + 'o metadata_base option) \<Rightarrow> string \<Rightarrow> instance_value \<Rightarrow>
   string \<times> member \<Rightarrow> 'o discovered_item list" where
  "method_items get metadataKey inst (name, Member_value h) =
     (case get metadataKey h of
        Inr (Some metadata) \<Rightarrow>
          [\<lparr>item_instance = inst, item_handler = h, item_metadata = metadata\<rparr>]
      | _ \<Rightarrow> [])"
| "method_items get metadataKey inst (name, m) = []"

definition scanned_methods :: "instance_wrapper \<Rightarrow> (string \<times> member) list" where
  "scanned_methods wrapper =
     (case wrapper_instance wrapper of
        Object has_constructor methodNames \<Rightarrow> if has_constructor then methodNames else []
      | _ \<Rightarrow> [])"

definition scannable :: "instance_wrapper \<Rightarrow> bool" where
  "scannable wrapper =
     (case wrapper_instance wrapper of
        Object has_constructor methodNames \<Rightarrow> has_constructor
      | _ \<Rightarrow> False)"

definition component_items ::
  "(string \<Rightarrow> handler \<Rightarrow> js_error + 'o metadata_base option) \<Rightarrow> string \<Rightarrow> instance_wrapper \<Rightarrow>
   'o discovered_item list" where
  "component_items get metadataKey wrapper =
     concat (map (method_items get metadataKey (wrapper_instance wrapper))
               (scanned_methods wrapper))"

text \<open>
  A reflector that raises on handler 1 and finds a tool definition on handler 2, the
  components it is used on, and modules configured for the stdio transport.
\<close>

definition lookup_error :: js_error where
  "lookup_error = \<lparr>message = ''Reflect.getMetadata called on non-object'', stack = []\<rparr>"

definition add_metadata :: "tool_options metadata_base" where
  "add_metadata =
     \<lparr>methodName = ''add'',
      options = Some \<lparr>tool_name = Some ''add'', tool_description = None,
                      tool_paramsSchema = None\<rparr>\<rparr>"

definition picky_reflector ::
  "string \<Rightarrow> handler \<Rightarrow> js_error + tool_options metadata_base option" where
  "picky_reflector metadataKey h =
     (if h = 1 then Inl lookup_error else if h = 2 then Inr (Some add_metadata) else Inr None)"

definition broken_component :: instance_wrapper where
  "broken_component = \<lparr>wrapper_instance = Object True [(''broken'', Member_value 1)]\<rparr>"

definition good_component :: instance_wrapper where
  "good_component =
     \<lparr>wrapper_instance = Object True [(''helper'', Member_value 3), (''add'', Member_value 2)]\<rparr>"

definition skipped_components :: "instance_wrapper list" where
  "skipped_components =
     [\<lparr>wrapper_instance = Falsy\<rparr>, \<lparr>wrapper_instance = Non_object\<rparr>,
      \<lparr>wrapper_instance = Object False [(''broken'', Member_value 1)]\<rparr>]"

definition quiet_explorer :: explorer_service where
  "quiet_explorer =
     \<lparr>modulesContainer = [\<lparr>providers = skipped_components @ [good_component]\<rparr>],
      MCP_RESOURCE_METADATA = ''mcp:resource'',
      MCP_TOOL_METADATA = ''mcp:tool'',
      MCP_PROMPT_METADATA = ''mcp:prompt'',
      reflect_resource = (\<lambda>metadataKey h. Inr None),
      reflect_tool = picky_reflector,
      reflect_prompt = (\<lambda>metadataKey h. Inr None)\<rparr>"

definition stdio_module :: mcp_module where
  "stdio_module =
     \<lparr>module_logger = [], explorerService = quiet_explorer, mcpService = svc0,
      module_options = \<lparr>serverInfo = None, serverOptions = None, transport = Some STDIO\<rparr>\<rparr>"

definition broken_stdio_module :: mcp_module where
  "broken_stdio_module =
     stdio_module\<lparr>explorerService :=
       quiet_explorer\<lparr>modulesContainer := [\<lparr>providers = [broken_component, good_component]\<rparr>]\<rparr>\<rparr>"

definition refusing_connect :: "mcp_server \<Rightarrow> js_error option" where
  "refusing_connect srv = Some \<lparr>message = ''stdin is closed'', stack = []\<rparr>"

section \<open>The service constructor\<close>

lemma svc0_simps:
  "logger svc0 = [(Log, ''McpServer instance created.'')]"
  "registered (server svc0) = []"
  "connect_calls (server svc0) = []"
  by (simp_all add: svc0_def McpService_constructor_def McpServer_def)

text \<open>
  C10.  When the module options carry no \<open>serverInfo\<close>, the constructor still builds the
  engine, with the implementation info \<open>nestjs-mcp-server\<close>, version \<open>0.0.1\<close>, and
  with the server options it was given.  The constructor has no failing branch.
\<close>

theorem constructor_default_info:
  "serverInfo moduleOptions = None \<Longrightarrow>
     getServer (McpService_constructor moduleOptions) =
       McpServer \<lparr>impl_name = ''nestjs-mcp-server'', impl_version = ''0.0.1''\<rparr>
         (serverOptions moduleOptions)"
  by (simp add: McpService_constructor_def getServer_def default_info_def)

theorem constructor_default_info_witness:
  "serverInfo \<lparr>serverInfo = None, serverOptions = Some 3, transport = Some SSE\<rparr> = None \<and>
   getServer (McpService_constructor
       \<lparr>serverInfo = None, serverOptions = Some 3, transport = Some SSE\<rparr>) =
     McpServer \<lparr>impl_name = ''nestjs-mcp-server'', impl_version = ''0.0.1''\<rparr> (Some 3)"
  using constructor_default_info
    [of "\<lparr>serverInfo = None, serverOptions = Some 3, transport = Some SSE\<rparr>"]
  by simp

section \<open>Definitions without a name\<close>

text \<open>
  C5.  A resource, tool or prompt definition whose name is absent or empty (for a tool,
  also an absent definition) leaves the engine exactly as it was, and the only effect of
  the attempt is one warning in the service's log.  The three functions return normally.
\<close>

theorem nameless_definition_never_reaches_engine:
  "(\<not> truthy (res_name rd) \<longrightarrow>
      (\<exists>svc'. registerResource uriTemplateError rd h svc = Inr svc' \<and>
         server svc' = server svc \<and>
         logger svc' =
           logger svc @ [(Warn, ''Resource missing required name. Skipping registration.'')]))
   \<and> ((\<forall>d. td = Some d \<longrightarrow> \<not> truthy (tool_name d)) \<longrightarrow>
      server (registerTool td h svc) = server svc \<and>
      logger (registerTool td h svc) =
        logger svc @ [(Warn, ''Tool definition missing required name. Skipping registration.'')])
   \<and> (\<not> truthy (prompt_name pd) \<longrightarrow>
      server (registerPrompt pd h svc) = server svc \<and>
      logger (registerPrompt pd h svc) =
        logger svc @ [(Warn, ''Prompt missing required name. Skipping registration.'')])"
proof (intro conjI impI)
  assume "\<not> truthy (res_name rd)"
  then have "registerResource uriTemplateError rd h svc =
      Inr (log_to Warn ''Resource missing required name. Skipping registration.'' svc)"
    by (simp add: registerResource_def truthy_def split: option.splits)
  then show "\<exists>svc'. registerResource uriTemplateError rd h svc = Inr svc' \<and>
         server svc' = server svc \<and>
         logger svc' =
           logger svc @ [(Warn, ''Resource missing required name. Skipping registration.'')]"
    by (simp add: log_to_def)
next
  assume "\<forall>d. td = Some d \<longrightarrow> \<not> truthy (tool_name d)"
  then show "server (registerTool td h svc) = server svc"
    and "logger (registerTool td h svc) =
        logger svc @ [(Warn, ''Tool definition missing required name. Skipping registration.'')]"
    by (simp_all add: registerTool_def log_to_def split: option.splits)
next
  assume "\<not> truthy (prompt_name pd)"
  then show "server (registerPrompt pd h svc) = server svc"
    and "logger (registerPrompt pd h svc) =
        logger svc @ [(Warn, ''Prompt missing required name. Skipping registration.'')]"
    by (simp_all add: registerPrompt_def log_to_def truthy_def split: option.splits)
qed

theorem nameless_definition_never_reaches_engine_witness:
  "\<not> truthy (res_name \<lparr>res_name = Some [], res_uri = Some ''file:///a'',
        res_uriTemplate = None, res_metadata = None\<rparr>)
   \<and> \<not> truthy (tool_name \<lparr>tool_name = None, tool_description = Some ''d'',
        tool_paramsSchema = None\<rparr>)
   \<and> \<not> truthy (prompt_name \<lparr>prompt_name = None, prompt_description = None,
        prompt_arguments = None\<rparr>)
   \<and> (\<exists>svc'. registerResource brace_check \<lparr>res_name = Some [], res_uri = Some ''file:///a'',
        res_uriTemplate = None, res_metadata = None\<rparr> 1 svc0 = Inr svc' \<and>
        registered (server svc') = [])
   \<and> registered (server (registerTool (Some \<lparr>tool_name = None, tool_description = Some ''d'',
        tool_paramsSchema = None\<rparr>) 1 svc0)) = []
   \<and> registered (server (registerPrompt \<lparr>prompt_name = None, prompt_description = None,
        prompt_arguments = None\<rparr> 1 svc0)) = []"
proof -
  note inst = nameless_definition_never_reaches_engine
    [of "\<lparr>res_name = Some [], res_uri = Some ''file:///a'',
          res_uriTemplate = None, res_metadata = None\<rparr>" brace_check 1 svc0
        "Some \<lparr>tool_name = None, tool_description = Some ''d'', tool_paramsSchema = None\<rparr>"
        "\<lparr>prompt_name = None, prompt_description = None, prompt_arguments = None\<rparr>"]
  have h1: "\<not> truthy (res_name \<lparr>res_name = Some [], res_uri = Some ''file:///a'',
        res_uriTemplate = None, res_metadata = None\<rparr>)"
    and h2: "\<not> truthy (tool_name \<lparr>tool_name = None, tool_description = Some ''d'',
        tool_paramsSchema = None\<rparr>)"
    and h3: "\<not> truthy (prompt_name \<lparr>prompt_name = None, prompt_description = None,
        prompt_arguments = None\<rparr>)"
    by (simp_all add: truthy_def)
  from inst [THEN conjunct1, THEN mp, OF h1]
  obtain svc' where r: "registerResource brace_check \<lparr>res_name = Some [],
        res_uri = Some ''file:///a'', res_uriTemplate = None, res_metadata = None\<rparr> 1 svc0 =
        Inr svc'" and s: "server svc' = server svc0"
    by (elim exE conjE)
  have a: "\<exists>svc'. registerResource brace_check \<lparr>res_name = Some [],
        res_uri = Some ''file:///a'', res_uriTemplate = None, res_metadata = None\<rparr> 1 svc0 =
        Inr svc' \<and> registered (server svc') = []"
    using r s by (intro exI [of _ svc'] conjI) (simp_all add: svc0_simps)
  have b: "registered (server (registerTool (Some \<lparr>tool_name = None,
        tool_description = Some ''d'', tool_paramsSchema = None\<rparr>) 1 svc0)) = []"
    using inst [THEN conjunct2, THEN conjunct1] h2 by (simp add: svc0_simps)
  have c: "registered (server (registerPrompt \<lparr>prompt_name = None, prompt_description = None,
        prompt_arguments = None\<rparr> 1 svc0)) = []"
    using inst [THEN conjunct2, THEN conjunct2] h3 by (simp add: svc0_simps)
  show ?thesis using h1 h2 h3 a b c by (intro conjI)
qed

section \<open>Resources\<close>

text \<open>
  C4, as amended.  For a named resource definition, being a template resource is the same
  as carrying a \<open>uriTemplate\<close> field, whatever else the definition holds.  A string
  template that the matcher's constructor accepts is wrapped in a new matcher and
  registered; a string on which the constructor raises leaves \<open>registerResource\<close> with
  that error and nothing is registered.  A matcher instance is registered as it is, a
  template of any other type is logged as an error and the engine is left untouched, and a
  definition with no template is registered against its \<open>uri\<close>.  Absent metadata is the
  empty object.
\<close>

theorem registerResource_classification:
  assumes "res_name d = Some name" and "name \<noteq> []"
  shows "(isTemplateResource d \<longleftrightarrow> res_uriTemplate d \<noteq> None)
   \<and> (\<forall>s. res_uriTemplate d = Some (UT_string s) \<and> uriTemplateError s = None \<longrightarrow>
         (\<exists>svc'. registerResource uriTemplateError d h svc = Inr svc' \<and>
            registered (server svc') =
              registered (server svc) @
                [Resource_template name (ResourceTemplate s None)
                   (case res_metadata d of Some m \<Rightarrow> m | None \<Rightarrow> []) h]))
   \<and> (\<forall>s e. res_uriTemplate d = Some (UT_string s) \<and> uriTemplateError s = Some e \<longrightarrow>
         registerResource uriTemplateError d h svc = Inl e)
   \<and> (\<forall>t. res_uriTemplate d = Some (UT_instance t) \<longrightarrow>
         (\<exists>svc'. registerResource uriTemplateError d h svc = Inr svc' \<and>
            registered (server svc') =
              registered (server svc) @
                [Resource_template name t
                   (case res_metadata d of Some m \<Rightarrow> m | None \<Rightarrow> []) h]))
   \<and> (res_uriTemplate d = Some UT_other \<longrightarrow>
         (\<exists>svc'. registerResource uriTemplateError d h svc = Inr svc' \<and>
            server svc' = server svc \<and>
            logger svc' =
              logger svc @ [(Log, ''Registering resource: '' @ name),
                            (Error, ''Invalid uriTemplate type for template resource.'')]))
   \<and> (res_uriTemplate d = None \<longrightarrow>
         (\<exists>svc'. registerResource uriTemplateError d h svc = Inr svc' \<and>
            registered (server svc') =
              registered (server svc) @
                [Resource_uri name (res_uri d)
                   (case res_metadata d of Some m \<Rightarrow> m | None \<Rightarrow> []) h]))"
  using assms
  by (simp add: registerResource_def new_ResourceTemplate_def isTemplateResource_def
      log_to_def engine_register_def)

theorem registerResource_classification_witness:
  "res_name \<lparr>res_name = Some ''user'', res_uri = None,
       res_uriTemplate = Some (UT_string ''users://{id}''), res_metadata = None\<rparr> =
     Some ''user''
   \<and> ''user'' \<noteq> []
   \<and> brace_check ''users://{id}'' = None
   \<and> isTemplateResource \<lparr>res_name = Some ''user'', res_uri = None,
       res_uriTemplate = Some (UT_string ''users://{id}''), res_metadata = None\<rparr>
   \<and> (\<exists>svc'. registerResource brace_check \<lparr>res_name = Some ''user'', res_uri = None,
         res_uriTemplate = Some (UT_string ''users://{id}''), res_metadata = None\<rparr> 4 svc0 =
         Inr svc' \<and>
       registered (server svc') =
         [Resource_template ''user'' (ResourceTemplate ''users://{id}'' None) [] 4])"
proof -
  let ?d = "\<lparr>res_name = Some ''user'', res_uri = None,
       res_uriTemplate = Some (UT_string ''users://{id}''), res_metadata = None\<rparr>"
  have h1: "res_name ?d = Some ''user''" and h2: "''user'' \<noteq> []"
    and ok: "brace_check ''users://{id}'' = None"
    by (simp_all add: brace_check_def)
  note inst = registerResource_classification [OF h1 h2, of brace_check 4 svc0]
  have t: "isTemplateResource ?d"
    using inst [THEN conjunct1] by simp
  from inst [THEN conjunct2, THEN conjunct1, rule_format, of "''users://{id}''"] ok
  have "\<exists>svc'. registerResource brace_check ?d 4 svc0 = Inr svc' \<and>
       registered (server svc') =
         registered (server svc0) @
           [Resource_template ''user'' (ResourceTemplate ''users://{id}'' None)
              (case res_metadata ?d of Some m \<Rightarrow> m | None \<Rightarrow> []) 4]"
    by simp
  then have r: "\<exists>svc'. registerResource brace_check ?d 4 svc0 = Inr svc' \<and>
       registered (server svc') =
         [Resource_template ''user'' (ResourceTemplate ''users://{id}'' None) [] 4]"
    by (simp add: svc0_simps)
  show ?thesis using h1 h2 ok t r by (intro conjI)
qed

text \<open>
  The claim as written registers a matcher for every template resource whose
  \<open>uriTemplate\<close> is a string.  On a template with an unclosed brace the constructor of the
  matcher raises, no \<open>try\<close> stands around it, and the caller receives the error.
\<close>

theorem registerResource_malformed_template_counterexample:
  "brace_check ''users://{id'' = Some unclosed_template \<and>
   registerResource brace_check
       \<lparr>res_name = Some ''user'', res_uri = None,
        res_uriTemplate = Some (UT_string ''users://{id''), res_metadata = None\<rparr> 4 svc0 =
     Inl unclosed_template"
  by (simp add: registerResource_def new_ResourceTemplate_def isTemplateResource_def
      brace_check_def)

section \<open>Tools\<close>

text \<open>
  C3, as amended.  For a named tool, exactly one engine call is appended, chosen by whether
  the parameter shape is present with at least one key and whether the description is
  present and non-empty.  The description counts as given only when it is a non-empty
  string: the source tests \<open>if (description)\<close>.  No call carries an empty shape or an
  empty description.
\<close>

theorem registerTool_overload_matrix:
  assumes "tool_name d = Some name" and "name \<noteq> []"
  shows "(\<forall>s desc. tool_paramsSchema d = Some s \<and> object_keys s \<noteq> [] \<and>
            tool_description d = Some desc \<and> desc \<noteq> [] \<longrightarrow>
          registered (server (registerTool (Some d) h svc)) =
            registered (server svc) @ [Tool_desc_schema name desc s h])
   \<and> (\<forall>s. tool_paramsSchema d = Some s \<and> object_keys s \<noteq> [] \<and>
            \<not> truthy (tool_description d) \<longrightarrow>
          registered (server (registerTool (Some d) h svc)) =
            registered (server svc) @ [Tool_schema name s h])
   \<and> (\<forall>desc. \<not> shape_nonempty (tool_paramsSchema d) \<and>
            tool_description d = Some desc \<and> desc \<noteq> [] \<longrightarrow>
          registered (server (registerTool (Some d) h svc)) =
            registered (server svc) @ [Tool_desc name desc h])
   \<and> (\<not> shape_nonempty (tool_paramsSchema d) \<and> \<not> truthy (tool_description d) \<longrightarrow>
          registered (server (registerTool (Some d) h svc)) =
            registered (server svc) @ [Tool_plain name h])"
  using assms
  by (simp add: registerTool_def shape_nonempty_def truthy_def log_to_def engine_register_def)

theorem registerTool_overload_matrix_witness:
  "tool_name \<lparr>tool_name = Some ''t'', tool_description = Some ''adds'',
       tool_paramsSchema = Some \<lparr>shape_own = [(''x'', ZodOther ''number'')],
                                 shape_proto = None\<rparr>\<rparr> = Some ''t''
   \<and> ''t'' \<noteq> []
   \<and> registered (server (registerTool (Some \<lparr>tool_name = Some ''t'',
       tool_description = Some ''adds'',
       tool_paramsSchema = Some \<lparr>shape_own = [(''x'', ZodOther ''number'')],
                                 shape_proto = None\<rparr>\<rparr>) 5 svc0)) =
     [Tool_desc_schema ''t'' ''adds''
        \<lparr>shape_own = [(''x'', ZodOther ''number'')], shape_proto = None\<rparr> 5]"
  using registerTool_overload_matrix
    [of "\<lparr>tool_name = Some ''t'', tool_description = Some ''adds'',
          tool_paramsSchema = Some \<lparr>shape_own = [(''x'', ZodOther ''number'')],
                                    shape_proto = None\<rparr>\<rparr>" "''t''" 5 svc0]
  by (simp add: object_keys_def svc0_simps)

text \<open>
  The claim as written selects by the presence of the description.  A tool whose
  description is present and empty is registered with the name and handler only.
\<close>

theorem registerTool_empty_description_counterexample:
  "tool_description \<lparr>tool_name = Some ''t'', tool_description = Some [],
       tool_paramsSchema = None\<rparr> \<noteq> None
   \<and> registered (server (registerTool (Some \<lparr>tool_name = Some ''t'',
       tool_description = Some [], tool_paramsSchema = None\<rparr>) 5 svc0)) =
     [Tool_plain ''t'' 5]
   \<and> registered (server (registerTool (Some \<lparr>tool_name = Some ''t'',
       tool_description = Some [], tool_paramsSchema = None\<rparr>) 5 svc0)) \<noteq>
     [Tool_desc ''t'' [] 5]"
  by (simp add: registerTool_def shape_nonempty_def truthy_def log_to_def engine_register_def
      svc0_simps Let_def)

section \<open>Prompts\<close>

lemma last_named_split:
  "arg_name a = Some k \<Longrightarrow> \<forall>b\<in>set post. arg_name b \<noteq> Some k \<Longrightarrow>
     last_named k (pre @ a # post) = Some a"
proof (induction pre)
  case Nil
  have "last_named k post = None" using Nil(2)
    by (induction post) (auto split: option.splits)
  then show ?case using Nil(1) by simp
next
  case (Cons p pre)
  then show ?case by simp
qed

lemma argsSchema_loop_lookup:
  "k \<noteq> ''__proto__'' \<Longrightarrow> k \<noteq> [] \<Longrightarrow>
     map_of (shape_own (fst (argsSchema_loop name args sch svc))) k =
       (case last_named k args of
          Some a \<Rightarrow> Some (argument_schema a)
        | None \<Rightarrow> map_of (shape_own sch) k)"
proof (induction args arbitrary: sch svc)
  case Nil
  then show ?case by simp
next
  case (Cons a args)
  then show ?case
    by (auto simp: js_assign_def update_conv' split: option.splits)
qed

lemma argsSchema_loop_keys:
  "fst ` set (shape_own (fst (argsSchema_loop name args sch svc))) =
     fst ` set (shape_own sch) \<union>
       {k. k \<noteq> [] \<and> k \<noteq> ''__proto__'' \<and> (\<exists>a\<in>set args. arg_name a = Some k)}"
proof (induction args arbitrary: sch svc)
  case Nil
  then show ?case by simp
next
  case (Cons a args)
  show ?case
  proof (cases "arg_name a")
    case None
    then show ?thesis by (auto simp: Cons.IH)
  next
    case (Some k)
    then show ?thesis
      by (auto simp: Cons.IH js_assign_def dom_update)
  qed
qed

lemma argsSchema_loop_service:
  "snd (argsSchema_loop name args sch svc) =
     svc\<lparr>logger := logger svc @
       replicate (length (filter (\<lambda>a. \<not> truthy (arg_name a)) args))
         (Warn, nameless_warning name)\<rparr>"
proof (induction args arbitrary: sch svc)
  case Nil
  then show ?case by simp
next
  case (Cons a args)
  show ?case
    by (cases "arg_name a")
       (auto simp: Cons.IH log_to_def truthy_def replicate_app_Cons_same)
qed

text \<open>
  C2, as amended.  For a named prompt with a non-empty argument list, exactly one engine
  call is appended, so the registration never fails: the zero-argument form when the
  synthesized schema has no key, the form with the schema otherwise.  The keys of the
  schema are the non-empty argument names; every nameless argument costs one warning and
  no key.  An argument whose name is not used again later in the list decides the entry
  under its name: a string schema, carrying the description when there is one, plain when
  \<open>required\<close> is \<open>true\<close> and wrapped as optional otherwise.  The statement is about
  argument lists in which no argument is named \<open>__proto__\<close>.
\<close>

theorem registerPrompt_schema_synthesis:
  assumes "prompt_name d = Some name" and "name \<noteq> []"
    and "prompt_arguments d = Some args" and "args \<noteq> []"
    and plain_names: "\<forall>a\<in>set args. arg_name a \<noteq> Some ''__proto__''"
  shows "\<exists>argsSchema.
     registered (server (registerPrompt d h svc)) =
       registered (server svc) @
         [if object_keys argsSchema = []
          then Prompt_plain name (case prompt_description d of Some s \<Rightarrow> s | None \<Rightarrow> []) h
          else Prompt_args name (case prompt_description d of Some s \<Rightarrow> s | None \<Rightarrow> [])
                 argsSchema h]
     \<and> logger (registerPrompt d h svc) =
         logger svc @ [(Log, ''Registering prompt: '' @ name)] @
         replicate (length (filter (\<lambda>a. \<not> truthy (arg_name a)) args))
           (Warn, nameless_warning name) @
         (if object_keys argsSchema = [] then [(Warn, empty_schema_warning name)] else [])
     \<and> set (object_keys argsSchema) =
         {k. k \<noteq> [] \<and> (\<exists>a\<in>set args. arg_name a = Some k)}
     \<and> (\<forall>pre a post k.
           args = pre @ a # post \<and> arg_name a = Some k \<and> k \<noteq> []
             \<and> (\<forall>b\<in>set post. arg_name b \<noteq> Some k) \<longrightarrow>
           map_of (shape_own argsSchema) k =
             Some (let s = ZodString (if truthy (arg_description a) then arg_description a
                                      else None)
                   in if arg_required a = Some True then s else ZodOptional s))"
proof -
  obtain sch svc2 where loop:
    "argsSchema_loop name args empty_shape (log_to Log (''Registering prompt: '' @ name) svc)
       = (sch, svc2)"
    by (cases "argsSchema_loop name args empty_shape
                 (log_to Log (''Registering prompt: '' @ name) svc)")
  have sch: "sch = fst (argsSchema_loop name args empty_shape
                  (log_to Log (''Registering prompt: '' @ name) svc))"
    and svc2: "svc2 = snd (argsSchema_loop name args empty_shape
                  (log_to Log (''Registering prompt: '' @ name) svc))"
    using loop by simp_all
  have desc: "(if truthy (prompt_description d) then the (prompt_description d) else []) =
      (case prompt_description d of Some s \<Rightarrow> s | None \<Rightarrow> [])"
    by (simp add: truthy_def split: option.splits)
  have run: "registerPrompt d h svc =
      (if object_keys sch = []
       then engine_register
              (Prompt_plain name (case prompt_description d of Some s \<Rightarrow> s | None \<Rightarrow> []) h)
              (log_to Warn (empty_schema_warning name) svc2)
       else engine_register
              (Prompt_args name (case prompt_description d of Some s \<Rightarrow> s | None \<Rightarrow> []) sch h)
              svc2)"
    using assms(1-4) loop
    by (simp add: registerPrompt_def desc empty_schema_warning_def Let_def)
  have svc2_eq: "svc2 = svc\<lparr>logger := logger svc @ [(Log, ''Registering prompt: '' @ name)] @
       replicate (length (filter (\<lambda>a. \<not> truthy (arg_name a)) args))
         (Warn, nameless_warning name)\<rparr>"
    unfolding svc2 by (simp add: argsSchema_loop_service log_to_def)
  have calls: "registered (server (registerPrompt d h svc)) =
       registered (server svc) @
         [if object_keys sch = []
          then Prompt_plain name (case prompt_description d of Some s \<Rightarrow> s | None \<Rightarrow> []) h
          else Prompt_args name (case prompt_description d of Some s \<Rightarrow> s | None \<Rightarrow> []) sch h]"
    unfolding run svc2_eq by (simp add: engine_register_def log_to_def)
  have logs: "logger (registerPrompt d h svc) =
         logger svc @ [(Log, ''Registering prompt: '' @ name)] @
         replicate (length (filter (\<lambda>a. \<not> truthy (arg_name a)) args))
           (Warn, nameless_warning name) @
         (if object_keys sch = [] then [(Warn, empty_schema_warning name)] else [])"
    unfolding run svc2_eq by (simp add: engine_register_def log_to_def)
  have "set (object_keys sch) =
         {k. k \<noteq> [] \<and> k \<noteq> ''__proto__'' \<and> (\<exists>a\<in>set args. arg_name a = Some k)}"
    unfolding sch object_keys_def
    by (simp add: argsSchema_loop_keys empty_shape_def)
  also have "\<dots> = {k. k \<noteq> [] \<and> (\<exists>a\<in>set args. arg_name a = Some k)}"
    using plain_names by (intro Collect_cong) metis
  finally have keys: "set (object_keys sch) =
         {k. k \<noteq> [] \<and> (\<exists>a\<in>set args. arg_name a = Some k)}" .
  have entries: "map_of (shape_own sch) k =
             Some (let s = ZodString (if truthy (arg_description a) then arg_description a
                                      else None)
                   in if arg_required a = Some True then s else ZodOptional s)"
    if "args = pre @ a # post" "arg_name a = Some k" "k \<noteq> []"
       "\<forall>b\<in>set post. arg_name b \<noteq> Some k" for pre a post k
  proof -
    have "a \<in> set args"
      using that(1) by simp
    with plain_names that(2) have proto: "k \<noteq> ''__proto__''"
      by (metis option.inject)
    have "last_named k args = Some a"
      using that(1,2,4) by (simp add: last_named_split)
    then show ?thesis
      unfolding sch using that(3) proto
      by (simp add: argsSchema_loop_lookup argument_schema_def Let_def)
  qed
  show ?thesis
  proof (intro exI [of _ sch] conjI allI impI)
    show "registered (server (registerPrompt d h svc)) =
       registered (server svc) @
         [if object_keys sch = []
          then Prompt_plain name (case prompt_description d of Some s \<Rightarrow> s | None \<Rightarrow> []) h
          else Prompt_args name (case prompt_description d of Some s \<Rightarrow> s | None \<Rightarrow> []) sch h]"
      by (rule calls)
    show "logger (registerPrompt d h svc) =
         logger svc @ [(Log, ''Registering prompt: '' @ name)] @
         replicate (length (filter (\<lambda>a. \<not> truthy (arg_name a)) args))
           (Warn, nameless_warning name) @
         (if object_keys sch = [] then [(Warn, empty_schema_warning name)] else [])"
      by (rule logs)
    show "set (object_keys sch) =
         {k. k \<noteq> [] \<and> (\<exists>a\<in>set args. arg_name a = Some k)}"
      by (rule keys)
  next
    fix pre a post k
    assume "args = pre @ a # post \<and> arg_name a = Some k \<and> k \<noteq> []
             \<and> (\<forall>b\<in>set post. arg_name b \<noteq> Some k)"
    then show "map_of (shape_own sch) k =
             Some (let s = ZodString (if truthy (arg_description a) then arg_description a
                                      else None)
                   in if arg_required a = Some True then s else ZodOptional s)"
      using entries [of pre a post k] by simp
  qed
qed

theorem registerPrompt_schema_synthesis_witness:
  "prompt_name demo_prompt = Some ''p'' \<and> ''p'' \<noteq> [] \<and>
   prompt_arguments demo_prompt = Some demo_args \<and> demo_args \<noteq> [] \<and>
   list_all (\<lambda>a. arg_name a \<noteq> Some ''__proto__'') demo_args \<and>
   (\<exists>argsSchema.
      registered (server (registerPrompt demo_prompt 7 svc0)) =
        [Prompt_args ''p'' ''d'' argsSchema 7] \<and>
      map_of (shape_own argsSchema) ''a'' = Some (ZodString None) \<and>
      map_of (shape_own argsSchema) ''b'' = Some (ZodOptional (ZodString (Some ''x''))))"
proof -
  have h1: "prompt_name demo_prompt = Some ''p''" and h2: "''p'' \<noteq> []"
    and h3: "prompt_arguments demo_prompt = Some demo_args" and h4: "demo_args \<noteq> []"
    by (simp_all add: demo_prompt_def demo_args_def)
  have h5: "\<forall>a\<in>set demo_args. arg_name a \<noteq> Some ''__proto__''"
    by (simp add: demo_args_def)
  then have h5': "list_all (\<lambda>a. arg_name a \<noteq> Some ''__proto__'') demo_args"
    by (simp add: list_all_iff)
  from registerPrompt_schema_synthesis [OF h1 h2 h3 h4 h5, of 7 svc0]
  obtain sch where all:
    "registered (server (registerPrompt demo_prompt 7 svc0)) =
       registered (server svc0) @
         [if object_keys sch = []
          then Prompt_plain ''p'' (case prompt_description demo_prompt of Some s \<Rightarrow> s | None \<Rightarrow> []) 7
          else Prompt_args ''p'' (case prompt_description demo_prompt of Some s \<Rightarrow> s | None \<Rightarrow> [])
                 sch 7]
     \<and> logger (registerPrompt demo_prompt 7 svc0) =
         logger svc0 @ [(Log, ''Registering prompt: '' @ ''p'')] @
         replicate (length (filter (\<lambda>a. \<not> truthy (arg_name a)) demo_args))
           (Warn, nameless_warning ''p'') @
         (if object_keys sch = [] then [(Warn, empty_schema_warning ''p'')] else [])
     \<and> set (object_keys sch) =
         {k. k \<noteq> [] \<and> (\<exists>a\<in>set demo_args. arg_name a = Some k)}
     \<and> (\<forall>pre a post k.
           demo_args = pre @ a # post \<and> arg_name a = Some k \<and> k \<noteq> []
             \<and> (\<forall>b\<in>set post. arg_name b \<noteq> Some k) \<longrightarrow>
           map_of (shape_own sch) k =
             Some (let s = ZodString (if truthy (arg_description a) then arg_description a
                                      else None)
                   in if arg_required a = Some True then s else ZodOptional s))" ..
  note calls = all [THEN conjunct1]
  note keys = all [THEN conjunct2, THEN conjunct2, THEN conjunct1]
  note entries = all [THEN conjunct2, THEN conjunct2, THEN conjunct2, rule_format]
  have a: "map_of (shape_own sch) ''a'' = Some (ZodString None)"
    using entries [of "[]" "hd demo_args" "tl demo_args" "''a''"]
    by (simp add: demo_args_def truthy_def)
  have b: "map_of (shape_own sch) ''b'' = Some (ZodOptional (ZodString (Some ''x'')))"
    using entries [of "butlast demo_args" "last demo_args" "[]" "''b''"]
    by (simp add: demo_args_def truthy_def)
  have "''a'' \<in> set (object_keys sch)"
    unfolding keys by (simp add: demo_args_def)
  then have ne: "object_keys sch \<noteq> []"
    by (cases "object_keys sch") simp_all
  have c: "registered (server (registerPrompt demo_prompt 7 svc0)) =
        [Prompt_args ''p'' ''d'' sch 7]"
    using calls ne by (simp add: svc0_def McpService_constructor_def McpServer_def demo_prompt_def)
  show ?thesis
    using h1 h2 h3 h4 h5' c a b by (intro conjI exI [of _ sch])
qed

text \<open>
  The claim as written lets every argument with \<open>required = true\<close> map to a plain
  string schema.  When two arguments share a name the later assignment replaces the
  earlier one: here the first argument is required, and the schema holds the optional
  wrapper under its name.
\<close>

theorem registerPrompt_duplicate_counterexample:
  "registered (server (registerPrompt
      \<lparr>prompt_name = Some ''p'', prompt_description = None,
       prompt_arguments = Some
         [\<lparr>arg_name = Some ''a'', arg_description = None, arg_required = Some True\<rparr>,
          \<lparr>arg_name = Some ''a'', arg_description = None, arg_required = Some False\<rparr>]\<rparr>
      0 svc0)) =
   [Prompt_args ''p'' []
      \<lparr>shape_own = [(''a'', ZodOptional (ZodString None))], shape_proto = None\<rparr> 0]"
  by (simp add: registerPrompt_def log_to_def engine_register_def truthy_def svc0_simps
      empty_shape_def js_assign_def argument_schema_def object_keys_def)

section \<open>Message routing\<close>

lemma constructor_is_inherited: "''constructor'' \<in> set object_prototype_keys"
  by (simp add: object_prototype_keys_def)

text \<open>
  C1.  The claim holds on every path but one.  The registry is a plain object, so a
  \<open>sessionId\<close> that names a property of \<open>Object.prototype\<close> finds a truthy value
  although the registry has no entry for it; the delegation then raises inside the
  \<open>try\<close>, and the response is 500 instead of 404.  Here the registry is empty and the
  request carries \<open>sessionId=constructor\<close>.
\<close>

theorem handleMessage_inherited_key_is_500:
  "transports empty_http_service = [] \<and>
   handleMessage accepting_sdk \<lparr>query_sessionId = Some ''constructor'', payload = ''{}''\<rparr>
       fresh_response empty_http_service =
     Inr (\<lparr>headersSent = True, statusCode = 500, written = [''Error processing message''],
           writableEnded = True, close_listeners = []\<rparr>,
          \<lparr>http_logger =
             [(Error, ''Error handling message for session constructor: transport.handlePostMessage is not a function'')],
           transports = [], mcpService_server = Some (server svc0)\<rparr>)"
  by (simp add: handleMessage_def js_get_def constructor_is_inherited empty_http_service_def
      handleMessage_catch_def status_send_def fresh_response_def http_log_def
      not_a_function_def)

text \<open>
  The other paths, for a response whose headers are not out yet: a missing or empty
  \<open>sessionId\<close> gives 400 and the registry is not touched, a key found nowhere gives 404,
  a key with an entry is delegated to the transport, a delegation that raises gives 500
  unless the transport has sent headers already, and no path raises.
\<close>

lemma handleMessage_paths:
  assumes "\<not> headersSent res"
  shows "(\<not> truthy (query_sessionId req) \<longrightarrow>
           (\<exists>res' svc'. handleMessage ext req res svc = Inr (res', svc') \<and>
              statusCode res' = 400 \<and> transports svc' = transports svc))
    \<and> (\<forall>sid. query_sessionId req = Some sid \<and> sid \<noteq> [] \<and>
              js_get (transports svc) sid = Undefined \<longrightarrow>
           (\<exists>res' svc'. handleMessage ext req res svc = Inr (res', svc') \<and>
              statusCode res' = 404 \<and> transports svc' = transports svc))
    \<and> (\<forall>sid t res'. query_sessionId req = Some sid \<and> sid \<noteq> [] \<and>
              js_get (transports svc) sid = Own t \<and>
              handlePostMessage ext t req res = (None, res') \<longrightarrow>
           handleMessage ext req res svc = Inr (res', svc))
    \<and> (\<forall>sid t e res'. query_sessionId req = Some sid \<and> sid \<noteq> [] \<and>
              js_get (transports svc) sid = Own t \<and>
              handlePostMessage ext t req res = (Some e, res') \<longrightarrow>
           (\<exists>res'' svc'. handleMessage ext req res svc = Inr (res'', svc') \<and>
              transports svc' = transports svc \<and>
              (if headersSent res' then res'' = res' else statusCode res'' = 500)))
    \<and> (\<exists>r. handleMessage ext req res svc = Inr r)"
  using assms
  by (auto simp: handleMessage_def handleMessage_missing_def handleMessage_catch_def
      status_send_def http_log_def truthy_def Let_def
      split: option.splits js_property.splits prod.splits)

section \<open>Closing a connection\<close>

lemma close_listener_sync_transports:
  "transports (close_listener_sync t svc) = AList.delete (sessionId t) (transports svc)"
  by (simp add: close_listener_sync_def http_log_def Let_def)

lemma close_listener_transports:
  "transports (close_listener ext t svc) = AList.delete (sessionId t) (transports svc)"
  by (simp add: close_listener_def close_listener_settled_def close_listener_sync_transports
      http_log_def split: option.splits)

lemma handleMessage_response_depends_on_lookup:
  assumes "\<forall>sid. query_sessionId req = Some sid \<longrightarrow>
             js_get (transports svc') sid = js_get (transports svc) sid"
  shows "map_sum id fst (handleMessage ext req res svc') =
         map_sum id fst (handleMessage ext req res svc)"
proof (cases "query_sessionId req")
  case None
  then show ?thesis
    by (simp add: handleMessage_def handleMessage_missing_def Let_def split: sum.splits)
next
  case (Some sid)
  with assms have eq: "js_get (transports svc') sid = js_get (transports svc) sid"
    by simp
  show ?thesis
    using Some eq
    by (simp add: handleMessage_def handleMessage_missing_def handleMessage_catch_def Let_def
        split: sum.splits js_property.splits prod.splits option.splits)
qed

text \<open>
  What the close listener of a transport does to any state it runs in: it removes the
  entry of its own \<open>sessionId\<close> in its synchronous part and leaves every other entry,
  and so every answer to a message for another session, as it was; the part that runs
  after \<open>transport.close()\<close> has settled only logs a rejection.
\<close>

lemma close_listener_frame:
  "map_of (transports (close_listener_sync t svc)) (sessionId t) = None
   \<and> (\<forall>k. k \<noteq> sessionId t \<longrightarrow>
         map_of (transports (close_listener_sync t svc)) k = map_of (transports svc) k)
   \<and> (\<forall>req res. query_sessionId req \<noteq> Some (sessionId t) \<longrightarrow>
         map_sum id fst (handleMessage ext req res (close_listener ext t svc)) =
         map_sum id fst (handleMessage ext req res svc))
   \<and> transports (close_listener ext t svc) = transports (close_listener_sync t svc)
   \<and> mcpService_server (close_listener ext t svc) = mcpService_server svc
   \<and> http_logger (close_listener ext t svc) =
       http_logger svc @ [(Log, ''SSE connection closed: '' @ sessionId t)] @
       (case transport_close ext t of
          None \<Rightarrow> []
        | Some err \<Rightarrow> [(Error, ''Error closing transport on disconnect:'')])"
proof (intro conjI allI impI)
  show "map_of (transports (close_listener_sync t svc)) (sessionId t) = None"
    by (simp add: close_listener_sync_transports delete_conv')
  show "map_of (transports (close_listener_sync t svc)) k = map_of (transports svc) k"
    if "k \<noteq> sessionId t" for k
    using that by (simp add: close_listener_sync_transports)
  show "map_sum id fst (handleMessage ext req res (close_listener ext t svc)) =
        map_sum id fst (handleMessage ext req res svc)"
    if "query_sessionId req \<noteq> Some (sessionId t)" for req res
  proof (rule handleMessage_response_depends_on_lookup, intro allI impI)
    fix sid
    assume "query_sessionId req = Some sid"
    with that have "sid \<noteq> sessionId t" by auto
    then show "js_get (transports (close_listener ext t svc)) sid = js_get (transports svc) sid"
      by (simp add: js_get_def close_listener_transports)
  qed
  show "transports (close_listener ext t svc) = transports (close_listener_sync t svc)"
    by (simp add: close_listener_transports close_listener_sync_transports)
  show "mcpService_server (close_listener ext t svc) = mcpService_server svc"
    by (simp add: close_listener_def close_listener_settled_def close_listener_sync_def
        http_log_def Let_def split: option.splits)
  show "http_logger (close_listener ext t svc) =
       http_logger svc @ [(Log, ''SSE connection closed: '' @ sessionId t)] @
       (case transport_close ext t of
          None \<Rightarrow> []
        | Some err \<Rightarrow> [(Error, ''Error closing transport on disconnect:'')])"
    by (simp add: close_listener_def close_listener_settled_def close_listener_sync_def
        http_log_def Let_def split: option.splits)
qed


lemma handleSSE_installs_listener:
  assumes fresh: "close_listeners res = []"
    and keeps: "\<forall>srv t r. close_listeners (snd (server_connect ext srv t r)) = close_listeners r"
  shows "\<exists>res' svc'. handleSSE ext sid res svc = Inr (res', svc') \<and>
     close_listeners res' = [SSEServerTransport ''/api/mcp/messages'' sid] \<and>
     transports svc' =
       AList.update sid (SSEServerTransport ''/api/mcp/messages'' sid) (transports svc)"
proof -
  let ?t = "SSEServerTransport ''/api/mcp/messages'' sid"
  let ?res1 = "res\<lparr>close_listeners := close_listeners res @ [?t]\<rparr>"
  have sid: "sessionId ?t = sid"
    by (simp add: SSEServerTransport_def)
  show ?thesis
  proof (cases "mcpService_server svc")
    case None
    then show ?thesis
      using fresh
      by (cases "headersSent res")
         (simp_all add: handleSSE_def sid status_send_def http_log_def Let_def)
  next
    case (Some srv)
    obtain err res2 where c: "server_connect ext srv ?t ?res1 = (err, res2)"
      by (cases "server_connect ext srv ?t ?res1")
    from keeps [rule_format, of srv ?t ?res1] c fresh
    have l2: "close_listeners res2 = [?t]"
      by simp
    show ?thesis
    proof (cases err)
      case None
      with Some c l2 show ?thesis
        by (simp add: handleSSE_def sid http_log_def Let_def)
    next
      case (Some e)
      with \<open>mcpService_server svc = Some srv\<close> c l2 show ?thesis
        by (cases "headersSent res2")
           (simp_all add: handleSSE_def sid handleSSE_catch_def status_send_def
              end_response_def http_log_def Let_def)
    qed
  qed
qed

text \<open>
  C6.  A connection opened by \<open>handleSSE\<close> on a response without listeners has exactly its
  own close listener on that response and its entry in the registry, whichever way
  \<open>handleSSE\<close> ends.  When the stream closes, in whatever state the service is by then,
  the close event removes the entry of that \<open>sessionId\<close> in the synchronous part of the
  listener and leaves every other entry as it was, so a message for another session is
  answered exactly as before the close.  The transport is closed afterwards; a rejection
  of that close adds one error entry to the log, and nothing is raised.  The SDK's
  \<open>connect\<close> is taken to leave the listeners of the response in place.
\<close>

theorem close_removes_only_its_session:
  assumes fresh: "close_listeners res = []"
    and keeps: "\<forall>srv t r. close_listeners (snd (server_connect ext srv t r)) = close_listeners r"
  shows "\<exists>res' svc'. handleSSE ext sid res svc = Inr (res', svc')
   \<and> close_listeners res' = [SSEServerTransport ''/api/mcp/messages'' sid]
   \<and> map_of (transports svc') sid = Some (SSEServerTransport ''/api/mcp/messages'' sid)
   \<and> (\<forall>k. k \<noteq> sid \<longrightarrow> map_of (transports svc') k = map_of (transports svc) k)
   \<and> (\<forall>now.
         emit_close ext res' now =
           close_listener_settled ext (SSEServerTransport ''/api/mcp/messages'' sid)
             (close_listener_sync (SSEServerTransport ''/api/mcp/messages'' sid) now)
         \<and> map_of (transports
               (close_listener_sync (SSEServerTransport ''/api/mcp/messages'' sid) now)) sid =
             None
         \<and> map_of (transports (emit_close ext res' now)) sid = None
         \<and> (\<forall>k. k \<noteq> sid \<longrightarrow>
               map_of (transports (emit_close ext res' now)) k = map_of (transports now) k)
         \<and> (\<forall>req r. query_sessionId req \<noteq> Some sid \<longrightarrow>
               map_sum id fst (handleMessage ext req r (emit_close ext res' now)) =
               map_sum id fst (handleMessage ext req r now))
         \<and> mcpService_server (emit_close ext res' now) = mcpService_server now
         \<and> http_logger (emit_close ext res' now) =
             http_logger now @ [(Log, ''SSE connection closed: '' @ sid)] @
             (case transport_close ext (SSEServerTransport ''/api/mcp/messages'' sid) of
                None \<Rightarrow> []
              | Some err \<Rightarrow> [(Error, ''Error closing transport on disconnect:'')]))"
proof -
  let ?t = "SSEServerTransport ''/api/mcp/messages'' sid"
  have sid: "sessionId ?t = sid"
    by (simp add: SSEServerTransport_def)
  from handleSSE_installs_listener [OF fresh keeps, of sid svc]
  obtain res' svc' where run: "handleSSE ext sid res svc = Inr (res', svc')"
    and listeners: "close_listeners res' = [?t]"
    and registry: "transports svc' = AList.update sid ?t (transports svc)"
    by (elim exE conjE)
  have there: "map_of (transports svc') sid = Some ?t"
    by (simp add: registry update_conv')
  have others: "map_of (transports svc') k = map_of (transports svc) k" if "k \<noteq> sid" for k
    using that by (simp add: registry update_conv')
  have event: "emit_close ext res' now = close_listener ext ?t now" for now
    by (simp add: emit_close_def listeners)
  note frame = close_listener_frame [of ?t _ ext, unfolded sid]
  have closing: "emit_close ext res' now =
           close_listener_settled ext ?t (close_listener_sync ?t now)
         \<and> map_of (transports (close_listener_sync ?t now)) sid = None
         \<and> map_of (transports (emit_close ext res' now)) sid = None
         \<and> (\<forall>k. k \<noteq> sid \<longrightarrow>
               map_of (transports (emit_close ext res' now)) k = map_of (transports now) k)
         \<and> (\<forall>req r. query_sessionId req \<noteq> Some sid \<longrightarrow>
               map_sum id fst (handleMessage ext req r (emit_close ext res' now)) =
               map_sum id fst (handleMessage ext req r now))
         \<and> mcpService_server (emit_close ext res' now) = mcpService_server now
         \<and> http_logger (emit_close ext res' now) =
             http_logger now @ [(Log, ''SSE connection closed: '' @ sid)] @
             (case transport_close ext ?t of
                None \<Rightarrow> []
              | Some err \<Rightarrow> [(Error, ''Error closing transport on disconnect:'')])" for now
    unfolding event using frame [of now]
    by (simp add: close_listener_def)
  show ?thesis
  proof (intro exI [of _ res'] exI [of _ svc'] conjI allI impI)
    show "handleSSE ext sid res svc = Inr (res', svc')" by (rule run)
    show "close_listeners res' = [?t]" by (rule listeners)
    show "map_of (transports svc') sid = Some ?t" by (rule there)
    show "map_of (transports svc') k = map_of (transports svc) k" if "k \<noteq> sid" for k
      using that by (rule others)
  next
    fix now
    show "emit_close ext res' now =
        close_listener_settled ext ?t (close_listener_sync ?t now)"
      using closing [of now] by (elim conjE)
    show "map_of (transports (close_listener_sync ?t now)) sid = None"
      using closing [of now] by (elim conjE)
    show "map_of (transports (emit_close ext res' now)) sid = None"
      using closing [of now] by (elim conjE)
    show "mcpService_server (emit_close ext res' now) = mcpService_server now"
      using closing [of now] by (elim conjE)
    show "http_logger (emit_close ext res' now) =
             http_logger now @ [(Log, ''SSE connection closed: '' @ sid)] @
             (case transport_close ext ?t of
                None \<Rightarrow> []
              | Some err \<Rightarrow> [(Error, ''Error closing transport on disconnect:'')])"
      using closing [of now] by (elim conjE)
  next
    fix now k
    assume "k \<noteq> sid"
    then show "map_of (transports (emit_close ext res' now)) k = map_of (transports now) k"
      using closing [of now] by (elim conjE) simp
  next
    fix now and req :: request and r
    assume "query_sessionId req \<noteq> Some sid"
    then show "map_sum id fst (handleMessage ext req r (emit_close ext res' now)) =
               map_sum id fst (handleMessage ext req r now)"
      using closing [of now] by (elim conjE) simp
  qed
qed

theorem close_removes_only_its_session_witness:
  "close_listeners fresh_response = []
   \<and> (\<exists>res' svc'. handleSSE rejecting_close_sdk ''s1'' fresh_response one_session =
          Inr (res', svc')
        \<and> close_listeners res' = [SSEServerTransport ''/api/mcp/messages'' ''s1'']
        \<and> map_of (transports svc') ''s1'' =
            Some (SSEServerTransport ''/api/mcp/messages'' ''s1'')
        \<and> map_of (transports (emit_close rejecting_close_sdk res' svc')) ''s1'' = None
        \<and> map_of (transports (emit_close rejecting_close_sdk res' svc')) ''s2'' =
            Some (SSEServerTransport ''/api/mcp/messages'' ''s2'')
        \<and> http_logger (emit_close rejecting_close_sdk res' svc') =
            http_logger svc' @ [(Log, ''SSE connection closed: s1''),
                                (Error, ''Error closing transport on disconnect:'')])"
proof -
  let ?t = "SSEServerTransport ''/api/mcp/messages'' ''s1''"
  have fresh: "close_listeners fresh_response = []"
    by (simp add: fresh_response_def)
  have keeps: "\<forall>srv t r.
      close_listeners (snd (server_connect rejecting_close_sdk srv t r)) = close_listeners r"
    by (simp add: rejecting_close_sdk_def accepting_sdk_def)
  from close_removes_only_its_session [OF fresh keeps, of "''s1''" one_session]
  obtain res' svc' where
    run: "handleSSE rejecting_close_sdk ''s1'' fresh_response one_session = Inr (res', svc')"
    and listeners: "close_listeners res' = [?t]"
    and there: "map_of (transports svc') ''s1'' = Some ?t"
    and others: "\<forall>k. k \<noteq> ''s1'' \<longrightarrow>
        map_of (transports svc') k = map_of (transports one_session) k"
    and closing: "\<forall>now.
         emit_close rejecting_close_sdk res' now =
           close_listener_settled rejecting_close_sdk ?t (close_listener_sync ?t now)
         \<and> map_of (transports (close_listener_sync ?t now)) ''s1'' = None
         \<and> map_of (transports (emit_close rejecting_close_sdk res' now)) ''s1'' = None
         \<and> (\<forall>k. k \<noteq> ''s1'' \<longrightarrow>
               map_of (transports (emit_close rejecting_close_sdk res' now)) k =
               map_of (transports now) k)
         \<and> (\<forall>req r. query_sessionId req \<noteq> Some ''s1'' \<longrightarrow>
               map_sum id fst (handleMessage rejecting_close_sdk req r
                  (emit_close rejecting_close_sdk res' now)) =
               map_sum id fst (handleMessage rejecting_close_sdk req r now))
         \<and> mcpService_server (emit_close rejecting_close_sdk res' now) =
             mcpService_server now
         \<and> http_logger (emit_close rejecting_close_sdk res' now) =
             http_logger now @ [(Log, ''SSE connection closed: '' @ ''s1'')] @
             (case transport_close rejecting_close_sdk ?t of
                None \<Rightarrow> []
              | Some err \<Rightarrow> [(Error, ''Error closing transport on disconnect:'')])"
    by (elim exE conjE)
  note at_close = closing [rule_format, of svc']
  have gone: "map_of (transports (emit_close rejecting_close_sdk res' svc')) ''s1'' = None"
    using at_close by (elim conjE)
  have "map_of (transports (emit_close rejecting_close_sdk res' svc')) ''s2'' =
      map_of (transports svc') ''s2''"
    using at_close by (elim conjE) simp
  also have "\<dots> = map_of (transports one_session) ''s2''"
    using others by simp
  finally have kept: "map_of (transports (emit_close rejecting_close_sdk res' svc')) ''s2'' =
      Some (SSEServerTransport ''/api/mcp/messages'' ''s2'')"
    by (simp add: one_session_def)
  have logs: "http_logger (emit_close rejecting_close_sdk res' svc') =
            http_logger svc' @ [(Log, ''SSE connection closed: s1''),
                                (Error, ''Error closing transport on disconnect:'')]"
    using at_close by (elim conjE) (simp add: rejecting_close_sdk_def)
  have "\<exists>res' svc'. handleSSE rejecting_close_sdk ''s1'' fresh_response one_session =
          Inr (res', svc')
        \<and> close_listeners res' = [?t]
        \<and> map_of (transports svc') ''s1'' = Some ?t
        \<and> map_of (transports (emit_close rejecting_close_sdk res' svc')) ''s1'' = None
        \<and> map_of (transports (emit_close rejecting_close_sdk res' svc')) ''s2'' =
            Some (SSEServerTransport ''/api/mcp/messages'' ''s2'')
        \<and> http_logger (emit_close rejecting_close_sdk res' svc') =
            http_logger svc' @ [(Log, ''SSE connection closed: s1''),
                                (Error, ''Error closing transport on disconnect:'')]"
    using run listeners there gone kept logs
    by (intro exI [of _ res'] exI [of _ svc'] conjI)
  with fresh show ?thesis by (rule conjI)
qed

section \<open>Opening a connection\<close>

lemma emit_close_removes:
  "t \<in> set ts \<Longrightarrow>
     map_of (transports (fold (close_listener ext) ts svc)) (sessionId t) = None"
proof (induction ts arbitrary: svc rule: rev_induct)
  case Nil
  then show ?case by simp
next
  case (snoc x xs)
  show ?case
  proof (cases "sessionId x = sessionId t")
    case True
    then show ?thesis
      by (simp add: close_listener_transports delete_conv')
  next
    case False
    with snoc.prems have "t \<in> set xs" by auto
    then show ?thesis
      using False snoc.IH by (simp add: close_listener_transports)
  qed
qed

lemma handleSSE_catch_returns:
  "\<exists>r. handleSSE_catch error res svc = Inr r"
  by (simp add: handleSSE_catch_def status_send_def Let_def)

text \<open>
  C7, as amended.  With the engine handle absent and no headers sent, \<open>handleSSE\<close>
  answers 500 and returns without a connect call; the registry entry it inserted for its
  \<open>sessionId\<close> is still there when it returns, and is gone once the close event of the
  response has run its listeners.  When \<open>connect\<close> raises after the headers went out, the
  stream is ended with nothing written and the status left as it was, and the error is
  logged.  \<open>handleSSE\<close> never raises.
\<close>

theorem handleSSE_failure_paths:
  "(mcpService_server svc = None \<and> \<not> headersSent res \<longrightarrow>
      (\<exists>res' svc'. handleSSE ext sid res svc = Inr (res', svc') \<and>
         statusCode res' = 500 \<and>
         written res' = written res @ [''MCP Server not initialized''] \<and>
         writableEnded res' \<and>
         mcpService_server svc' = None \<and>
         http_logger svc' =
           http_logger svc @
             [(Log, ''New SSE connection established: '' @ sid),
              (Error, ''MCP Server instance is not available.'')] \<and>
         map_of (transports svc') sid = Some (SSEServerTransport ''/api/mcp/messages'' sid) \<and>
         map_of (transports (emit_close ext res' svc')) sid = None))
   \<and> (\<forall>srv error res2.
         mcpService_server svc = Some srv \<and>
         server_connect ext srv (SSEServerTransport ''/api/mcp/messages'' sid)
           (res\<lparr>close_listeners :=
                  close_listeners res @ [SSEServerTransport ''/api/mcp/messages'' sid]\<rparr>) =
           (Some error, res2) \<and>
         headersSent res2 \<longrightarrow>
         (\<exists>svc'. handleSSE ext sid res svc = Inr (end_response res2, svc') \<and>
            written (end_response res2) = written res2 \<and>
            statusCode (end_response res2) = statusCode res2 \<and>
            writableEnded (end_response res2) \<and>
            http_logger svc' =
              http_logger svc @
                [(Log, ''New SSE connection established: '' @ sid),
                 (Error, ''Error in SSE connection or during connect: '' @ message error)]))
   \<and> (\<exists>r. handleSSE ext sid res svc = Inr r)"
proof (intro conjI allI impI)
  let ?t = "SSEServerTransport ''/api/mcp/messages'' sid"
  have sid: "sessionId ?t = sid"
    by (simp add: SSEServerTransport_def)
  show "\<exists>res' svc'. handleSSE ext sid res svc = Inr (res', svc') \<and>
         statusCode res' = 500 \<and>
         written res' = written res @ [''MCP Server not initialized''] \<and>
         writableEnded res' \<and>
         mcpService_server svc' = None \<and>
         http_logger svc' =
           http_logger svc @
             [(Log, ''New SSE connection established: '' @ sid),
              (Error, ''MCP Server instance is not available.'')] \<and>
         map_of (transports svc') sid = Some ?t \<and>
         map_of (transports (emit_close ext res' svc')) sid = None"
    if "mcpService_server svc = None \<and> \<not> headersSent res"
  proof -
    let ?res' = "res\<lparr>close_listeners := close_listeners res @ [?t], headersSent := True,
                    statusCode := 500,
                    written := written res @ [''MCP Server not initialized''],
                    writableEnded := True\<rparr>"
    let ?svc' = "http_log Error ''MCP Server instance is not available.''
                   (http_log Log (''New SSE connection established: '' @ sid)
                      (svc\<lparr>transports := AList.update sid ?t (transports svc)\<rparr>))"
    have run: "handleSSE ext sid res svc = Inr (?res', ?svc')"
      using that by (simp add: handleSSE_def sid status_send_def http_log_def Let_def)
    have gone: "map_of (transports (emit_close ext ?res' ?svc')) sid = None"
      using emit_close_removes [of ?t "close_listeners ?res'" ext ?svc']
      by (simp add: emit_close_def sid)
    have there: "map_of (transports ?svc') sid = Some ?t"
      by (simp add: http_log_def update_conv')
    have none: "mcpService_server ?svc' = None"
      using that by (simp add: http_log_def)
    have logs: "http_logger ?svc' =
           http_logger svc @
             [(Log, ''New SSE connection established: '' @ sid),
              (Error, ''MCP Server instance is not available.'')]"
      by (simp add: http_log_def)
    show ?thesis
      using run gone there none logs
      by (intro exI [of _ ?res'] exI [of _ ?svc'] conjI) simp_all
  qed
  show "\<exists>svc'. handleSSE ext sid res svc = Inr (end_response res2, svc') \<and>
            written (end_response res2) = written res2 \<and>
            statusCode (end_response res2) = statusCode res2 \<and>
            writableEnded (end_response res2) \<and>
            http_logger svc' =
              http_logger svc @
                [(Log, ''New SSE connection established: '' @ sid),
                 (Error, ''Error in SSE connection or during connect: '' @ message error)]"
    if "mcpService_server svc = Some srv \<and>
         server_connect ext srv ?t
           (res\<lparr>close_listeners := close_listeners res @ [?t]\<rparr>) = (Some error, res2) \<and>
         headersSent res2" for srv error res2
    using that
    by (simp add: handleSSE_def sid handleSSE_catch_def http_log_def end_response_def Let_def)
  show "\<exists>r. handleSSE ext sid res svc = Inr r"
    using handleSSE_catch_returns
    by (simp add: handleSSE_def status_send_def Let_def split: option.splits prod.splits)
qed

theorem handleSSE_failure_paths_witness:
  "mcpService_server no_engine_service = None \<and> \<not> headersSent fresh_response
   \<and> (\<exists>res' svc'. handleSSE failing_connect_sdk ''s1'' fresh_response no_engine_service =
          Inr (res', svc') \<and> statusCode res' = 500 \<and>
          map_of (transports (emit_close failing_connect_sdk res' svc')) ''s1'' = None)
   \<and> mcpService_server empty_http_service = Some (server svc0)
   \<and> (\<exists>res2 svc'. headersSent res2 \<and>
         handleSSE failing_connect_sdk ''s1'' fresh_response empty_http_service =
           Inr (end_response res2, svc') \<and> written (end_response res2) = [])"
proof -
  note inst1 = handleSSE_failure_paths
    [of no_engine_service fresh_response failing_connect_sdk "''s1''", THEN conjunct1]
  note inst2 = handleSSE_failure_paths
    [of empty_http_service fresh_response failing_connect_sdk "''s1''",
     THEN conjunct2, THEN conjunct1, rule_format,
     of "server svc0" "\<lparr>message = ''connection reset'', stack = []\<rparr>"
        "fresh_response\<lparr>close_listeners :=
            [SSEServerTransport ''/api/mcp/messages'' ''s1''],
           headersSent := True, statusCode := 200\<rparr>"]
  have h1: "mcpService_server no_engine_service = None"
    by (simp add: no_engine_service_def)
  have h2: "\<not> headersSent fresh_response"
    by (simp add: fresh_response_def)
  from inst1 h1 h2 have a:
    "\<exists>res' svc'. handleSSE failing_connect_sdk ''s1'' fresh_response no_engine_service =
          Inr (res', svc') \<and> statusCode res' = 500 \<and>
          map_of (transports (emit_close failing_connect_sdk res' svc')) ''s1'' = None"
    by fast
  have h3: "mcpService_server empty_http_service = Some (server svc0)"
    by (simp add: empty_http_service_def)
  have b: "\<exists>svc'. handleSSE failing_connect_sdk ''s1'' fresh_response empty_http_service =
           Inr (end_response (fresh_response\<lparr>close_listeners :=
            [SSEServerTransport ''/api/mcp/messages'' ''s1''],
           headersSent := True, statusCode := 200\<rparr>), svc')"
    using inst2 h3
    by (simp add: failing_connect_sdk_def accepting_sdk_def fresh_response_def)
       (elim exE conjE, rule exI, assumption)
  have c: "\<exists>res2 svc'. headersSent res2 \<and>
         handleSSE failing_connect_sdk ''s1'' fresh_response empty_http_service =
           Inr (end_response res2, svc') \<and> written (end_response res2) = []"
  proof -
    from b obtain svc' where
      "handleSSE failing_connect_sdk ''s1'' fresh_response empty_http_service =
           Inr (end_response (fresh_response\<lparr>close_listeners :=
            [SSEServerTransport ''/api/mcp/messages'' ''s1''],
           headersSent := True, statusCode := 200\<rparr>), svc')" ..
    then show ?thesis
      by (intro exI [of _ "fresh_response\<lparr>close_listeners :=
            [SSEServerTransport ''/api/mcp/messages'' ''s1''],
           headersSent := True, statusCode := 200\<rparr>"] exI [of _ svc'])
         (simp add: end_response_def fresh_response_def)
  qed
  show ?thesis using h1 h2 a h3 c by (intro conjI)
qed

text \<open>
  The claim as written has no registry entry left when \<open>handleSSE\<close> returns.  The entry
  is inserted before the engine handle is looked at, and only the close listener
  deletes it.
\<close>

theorem handleSSE_entry_remains_counterexample:
  "handleSSE accepting_sdk ''s1'' fresh_response no_engine_service =
     Inr (\<lparr>headersSent = True, statusCode = 500, written = [''MCP Server not initialized''],
           writableEnded = True,
           close_listeners = [\<lparr>sessionId = ''s1'', endpoint = ''/api/mcp/messages''\<rparr>]\<rparr>,
          \<lparr>http_logger =
             [(Log, ''New SSE connection established: s1''),
              (Error, ''MCP Server instance is not available.'')],
           transports = [(''s1'', \<lparr>sessionId = ''s1'', endpoint = ''/api/mcp/messages''\<rparr>)],
           mcpService_server = None\<rparr>)"
  by (simp add: handleSSE_def no_engine_service_def fresh_response_def status_send_def
      http_log_def SSEServerTransport_def Let_def)

section \<open>Discovery\<close>

lemma scan_methods_quiet:
  "\<forall>nm\<in>set ms. \<not> raises get key nm \<Longrightarrow>
     scan_methods get key inst ms acc = Inr (acc @ concat (map (method_items get key inst) ms))"
proof (induction ms arbitrary: acc)
  case Nil
  then show ?case by simp
next
  case (Cons nm ms)
  obtain n m where nm: "nm = (n, m)" by (cases nm)
  from Cons.prems have rest: "\<forall>nm\<in>set ms. \<not> raises get key nm" by simp
  from Cons.prems nm have here: "\<not> raises get key (n, m)" by simp
  show ?case
  proof (cases m)
    case (Member_throws e)
    with here show ?thesis by simp
  next
    case Member_falsy
    then show ?thesis using nm Cons.IH [OF rest] by simp
  next
    case (Member_value h)
    with here obtain r where r: "get key h = Inr r"
      by (cases "get key h") simp_all
    show ?thesis
      using nm Member_value r Cons.IH [OF rest] by (cases r) simp_all
  qed
qed

lemma scan_methods_raising:
  "\<exists>nm\<in>set ms. raises get key nm \<Longrightarrow> \<exists>e. scan_methods get key inst ms acc = Inl e"
proof (induction ms arbitrary: acc)
  case Nil
  then show ?case by simp
next
  case (Cons nm ms)
  obtain n m where nm: "nm = (n, m)" by (cases nm)
  show ?case
  proof (cases "raises get key (n, m)")
    case True
    then show ?thesis
      using nm by (cases m) (auto simp: isl_def)
  next
    case False
    with Cons.prems nm have "\<exists>nm\<in>set ms. raises get key nm" by auto
    from Cons.IH [OF this] have ih: "\<And>acc. \<exists>e. scan_methods get key inst ms acc = Inl e" .
    show ?thesis
    proof (cases m)
      case (Member_throws e)
      then show ?thesis using nm by simp
    next
      case Member_falsy
      then show ?thesis using nm ih by simp
    next
      case (Member_value h)
      with False obtain r where r: "get key h = Inr r"
        by (cases "get key h") simp_all
      show ?thesis
        using nm Member_value r ih by (cases r) simp_all
    qed
  qed
qed

lemma scan_components_step:
  "scan_components get key (w # ws) acc =
     (case scan_methods get key (wrapper_instance w) (scanned_methods w) acc of
        Inl e \<Rightarrow> Inl e
      | Inr acc' \<Rightarrow> scan_components get key ws acc')"
  by (cases "wrapper_instance w") (simp_all add: scanned_methods_def)

lemma scan_components_quiet:
  "\<forall>w\<in>set ws. \<forall>nm\<in>set (scanned_methods w). \<not> raises get key nm \<Longrightarrow>
     scan_components get key ws acc = Inr (acc @ concat (map (component_items get key) ws))"
proof (induction ws arbitrary: acc)
  case Nil
  then show ?case by simp
next
  case (Cons w ws)
  from Cons.prems have here: "\<forall>nm\<in>set (scanned_methods w). \<not> raises get key nm"
    and rest: "\<forall>w\<in>set ws. \<forall>nm\<in>set (scanned_methods w). \<not> raises get key nm"
    by simp_all
  show ?case
    unfolding scan_components_step
    by (simp add: scan_methods_quiet [OF here] Cons.IH [OF rest] component_items_def)
qed

lemma scan_components_raising:
  "\<exists>w\<in>set ws. \<exists>nm\<in>set (scanned_methods w). raises get key nm \<Longrightarrow>
     \<exists>e. scan_components get key ws acc = Inl e"
proof (induction ws arbitrary: acc)
  case Nil
  then show ?case by simp
next
  case (Cons w ws)
  show ?case
  proof (cases "\<exists>nm\<in>set (scanned_methods w). raises get key nm")
    case True
    from scan_methods_raising [OF this]
    obtain e where "scan_methods get key (wrapper_instance w) (scanned_methods w) acc = Inl e"
      by blast
    then show ?thesis
      unfolding scan_components_step by simp
  next
    case False
    then have quiet: "\<forall>nm\<in>set (scanned_methods w). \<not> raises get key nm" by blast
    from Cons.prems False
    have "\<exists>w\<in>set ws. \<exists>nm\<in>set (scanned_methods w). raises get key nm"
      by (metis set_ConsD)
    from Cons.IH [OF this] show ?thesis
      unfolding scan_components_step
      by (simp add: scan_methods_quiet [OF quiet])
  qed
qed

lemma component_items_Falsy: "wrapper_instance w = Falsy \<Longrightarrow> component_items get key w = []"
  by (simp add: component_items_def scanned_methods_def)

lemma scan_components_filter:
  assumes "\<And>w. \<not> Q w \<Longrightarrow> \<not> scannable w"
  shows "scan_components get key (filter Q ws) acc = scan_components get key ws acc"
proof (induction ws arbitrary: acc)
  case Nil
  then show ?case by simp
next
  case (Cons w ws)
  show ?case
  proof (cases "Q w")
    case True
    then show ?thesis
      by (simp add: Cons.IH split: instance_value.splits sum.splits)
  next
    case False
    with assms have "\<not> scannable w" by simp
    then show ?thesis
      using False by (simp add: Cons.IH scannable_def split: instance_value.splits)
  qed
qed

lemma explore_scans_all:
  "explore get modules key = scan_components get key (concat (map providers modules)) []"
  unfolding explore_def Let_def
  by (rule scan_components_filter) (simp add: scannable_def)

lemma explore_without_skipped:
  "explore get (map (\<lambda>m. m\<lparr>providers := filter scannable (providers m)\<rparr>) modules) key =
   explore get modules key"
proof -
  have "concat (map providers
          (map (\<lambda>m. m\<lparr>providers := filter scannable (providers m)\<rparr>) modules)) =
        filter scannable (concat (map providers modules))"
    by (induction modules) simp_all
  then show ?thesis
    by (simp add: explore_scans_all scan_components_filter)
qed

lemma concat_map_filter_nil:
  "(\<And>x. x \<in> set xs \<Longrightarrow> \<not> P x \<Longrightarrow> f x = []) \<Longrightarrow>
     concat (map f (filter P xs)) = concat (map f xs)"
  by (induction xs) simp_all

text \<open>
  C8, as amended.  When no method read and no metadata lookup raises, \<open>explore\<close> returns
  the items of all components in scan order.  When one raises in a component that is
  scanned, \<open>explore\<close> raises too and returns no list.  Instances that are falsy, not
  objects, or without a constructor are skipped: removing them from every module changes
  nothing, whether the scan returns or raises.
\<close>

theorem explore_skips_and_aborts:
  "((\<forall>w\<in>set (concat (map providers modules)).
       \<forall>nm\<in>set (scanned_methods w). \<not> raises get metadataKey nm) \<longrightarrow>
      explore get modules metadataKey =
        Inr (concat (map (component_items get metadataKey) (concat (map providers modules)))))
   \<and> ((\<exists>w\<in>set (concat (map providers modules)).
        \<exists>nm\<in>set (scanned_methods w). raises get metadataKey nm) \<longrightarrow>
      (\<exists>e. explore get modules metadataKey = Inl e))
   \<and> explore get (map (\<lambda>m. m\<lparr>providers := filter scannable (providers m)\<rparr>) modules)
         metadataKey =
       explore get modules metadataKey"
proof (intro conjI impI allI)
  let ?all = "concat (map providers modules)"
  let ?components = "filter (\<lambda>wrapper. wrapper_instance wrapper \<noteq> Falsy) ?all"
  show "explore get modules metadataKey =
        Inr (concat (map (component_items get metadataKey) ?all))"
    if quiet: "\<forall>w\<in>set ?all. \<forall>nm\<in>set (scanned_methods w). \<not> raises get metadataKey nm"
  proof -
    from quiet have "\<forall>w\<in>set ?components.
        \<forall>nm\<in>set (scanned_methods w). \<not> raises get metadataKey nm"
      by auto
    from scan_components_quiet [OF this, of "[]"]
    have "explore get modules metadataKey =
        Inr (concat (map (component_items get metadataKey) ?components))"
      by (simp add: explore_def)
    moreover have "concat (map (component_items get metadataKey) ?components) =
        concat (map (component_items get metadataKey) ?all)"
      by (rule concat_map_filter_nil) (simp add: component_items_Falsy)
    ultimately show ?thesis by simp
  qed
  show "\<exists>e. explore get modules metadataKey = Inl e"
    if "\<exists>w\<in>set ?all. \<exists>nm\<in>set (scanned_methods w). raises get metadataKey nm"
  proof -
    from that obtain w nm where w: "w \<in> set ?all" and nm: "nm \<in> set (scanned_methods w)"
      and r: "raises get metadataKey nm"
      by blast
    from nm have "wrapper_instance w \<noteq> Falsy"
      by (cases "wrapper_instance w") (simp_all add: scanned_methods_def)
    with w have "w \<in> set ?components" by simp
    with nm r have "\<exists>w\<in>set ?components.
        \<exists>nm\<in>set (scanned_methods w). raises get metadataKey nm"
      by blast
    from scan_components_raising [OF this, of "[]"] show ?thesis
      by (simp add: explore_def)
  qed
  show "explore get (map (\<lambda>m. m\<lparr>providers := filter scannable (providers m)\<rparr>) modules)
         metadataKey =
       explore get modules metadataKey"
    by (rule explore_without_skipped)
qed

theorem explore_skips_and_aborts_witness:
  "explore picky_reflector [\<lparr>providers = skipped_components @ [good_component]\<rparr>]
         ''mcp:tool'' =
       Inr [\<lparr>item_instance = wrapper_instance good_component, item_handler = 2,
             item_metadata = add_metadata\<rparr>]
   \<and> (\<exists>e. explore picky_reflector [\<lparr>providers = [broken_component, good_component]\<rparr>]
              ''mcp:tool'' = Inl e)"
proof -
  have quiet: "\<forall>w\<in>set (concat (map providers
        [\<lparr>providers = skipped_components @ [good_component]\<rparr>])).
       \<forall>nm\<in>set (scanned_methods w). \<not> raises picky_reflector ''mcp:tool'' nm"
    by (auto simp: skipped_components_def good_component_def scanned_methods_def
        picky_reflector_def)
  have loud: "\<exists>w\<in>set (concat (map providers
        [\<lparr>providers = [broken_component, good_component]\<rparr>])).
        \<exists>nm\<in>set (scanned_methods w). raises picky_reflector ''mcp:tool'' nm"
    by (auto simp: broken_component_def scanned_methods_def picky_reflector_def)
  have a: "explore picky_reflector [\<lparr>providers = skipped_components @ [good_component]\<rparr>]
         ''mcp:tool'' =
       Inr [\<lparr>item_instance = wrapper_instance good_component, item_handler = 2,
             item_metadata = add_metadata\<rparr>]"
    using explore_skips_and_aborts
      [of "[\<lparr>providers = skipped_components @ [good_component]\<rparr>]" picky_reflector
          "''mcp:tool''", THEN conjunct1, THEN mp, OF quiet]
    by (simp add: skipped_components_def good_component_def scanned_methods_def
        component_items_def picky_reflector_def)
  have b: "\<exists>e. explore picky_reflector [\<lparr>providers = [broken_component, good_component]\<rparr>]
              ''mcp:tool'' = Inl e"
    using explore_skips_and_aborts
      [of "[\<lparr>providers = [broken_component, good_component]\<rparr>]" picky_reflector
          "''mcp:tool''", THEN conjunct2, THEN conjunct1, THEN mp, OF loud] .
  show ?thesis using a b by (intro conjI)
qed

text \<open>
  The claim as written lets the scan go on after a failed lookup.  The loops have no
  \<open>try\<close>: with a first component whose lookup raises, the decorated method of the second
  one is never reached, although a scan of the second component alone finds it.
\<close>

theorem explore_lookup_failure_counterexample:
  "explore picky_reflector [\<lparr>providers = [broken_component, good_component]\<rparr>] ''mcp:tool'' =
     Inl lookup_error
   \<and> explore picky_reflector [\<lparr>providers = [good_component]\<rparr>] ''mcp:tool'' =
     Inr [\<lparr>item_instance = wrapper_instance good_component, item_handler = 2,
           item_metadata = add_metadata\<rparr>]"
  by (simp add: explore_def broken_component_def good_component_def picky_reflector_def)

section \<open>Bootstrap\<close>

lemma argsSchema_loop_server:
  "argsSchema_loop name args sch svc = (sch', svc') \<Longrightarrow> server svc' = server svc"
  using argsSchema_loop_service [of name args sch svc] by simp

lemma registerResource_connect_calls:
  "registerResource uriTemplateError d h svc = Inr svc' \<Longrightarrow>
     connect_calls (server svc') = connect_calls (server svc)"
  by (auto simp: registerResource_def log_to_def engine_register_def Let_def
      split: option.splits uri_template_value.splits sum.splits if_splits)

lemma registerTool_connect_calls:
  "connect_calls (server (registerTool d h svc)) = connect_calls (server svc)"
  by (simp add: registerTool_def log_to_def engine_register_def Let_def split: option.splits)

lemma registerPrompt_connect_calls:
  "connect_calls (server (registerPrompt d h svc)) = connect_calls (server svc)"
proof (cases "prompt_name d")
  case None
  then show ?thesis by (simp add: registerPrompt_def log_to_def)
next
  case (Some name)
  show ?thesis
  proof (cases "prompt_arguments d")
    case None
    with Some show ?thesis
      by (simp add: registerPrompt_def log_to_def engine_register_def Let_def)
  next
    case (Some args)
    obtain sch svc2 where loop:
      "argsSchema_loop name args empty_shape
         (log_to Log (''Registering prompt: '' @ name) svc) = (sch, svc2)"
      by (cases "argsSchema_loop name args empty_shape
                   (log_to Log (''Registering prompt: '' @ name) svc)")
    from argsSchema_loop_server [OF loop]
    have "server svc2 = server svc"
      by (simp add: log_to_def)
    with \<open>prompt_name d = Some name\<close> Some loop show ?thesis
      by (simp add: registerPrompt_def log_to_def engine_register_def Let_def)
  qed
qed

lemma register_resources_frame:
  "register_resources uriTemplateError items m = Inr m' \<Longrightarrow>
     module_options m' = module_options m \<and> explorerService m' = explorerService m \<and>
     connect_calls (server (mcpService m')) = connect_calls (server (mcpService m))"
proof (induction items arbitrary: m)
  case Nil
  then show ?case by simp
next
  case (Cons item items)
  obtain d where d: "options (item_metadata item) = Some d"
    using Cons.prems by (cases "options (item_metadata item)") (simp_all add: Let_def)
  let ?m1 = "module_log Debug (''Registering resource from handler: '' @
      (if truthy (res_name d) then the (res_name d) else methodName (item_metadata item))) m"
  obtain svc' where reg:
    "registerResource uriTemplateError d (item_handler item) (mcpService ?m1) = Inr svc'"
    using Cons.prems d
    by (cases "registerResource uriTemplateError d (item_handler item) (mcpService ?m1)")
       (simp_all add: Let_def)
  from Cons.prems d reg
  have "register_resources uriTemplateError items (?m1\<lparr>mcpService := svc'\<rparr>) = Inr m'"
    by (simp add: Let_def)
  from Cons.IH [OF this] registerResource_connect_calls [OF reg] show ?case
    by (simp add: module_log_def)
qed

lemma register_tools_frame:
  "module_options (register_tools items m) = module_options m \<and>
   explorerService (register_tools items m) = explorerService m \<and>
   connect_calls (server (mcpService (register_tools items m))) =
     connect_calls (server (mcpService m))"
proof (induction items arbitrary: m)
  case Nil
  then show ?case by simp
next
  case (Cons item items)
  show ?case
    by (simp add: Cons.IH Let_def module_log_def registerTool_connect_calls
        split: option.splits)
qed

lemma register_prompts_frame:
  "module_options (register_prompts items m) = module_options m \<and>
   explorerService (register_prompts items m) = explorerService m \<and>
   connect_calls (server (mcpService (register_prompts items m))) =
     connect_calls (server (mcpService m))"
proof (induction items arbitrary: m)
  case Nil
  then show ?case by simp
next
  case (Cons item items)
  show ?case
    by (simp add: Cons.IH Let_def module_log_def registerPrompt_connect_calls
        split: option.splits)
qed

lemma registerMcpHandlers_frame:
  assumes "registerMcpHandlers uriTemplateError m = Inr m'"
  shows "module_options m' = module_options m \<and>
     connect_calls (server (mcpService m')) = connect_calls (server (mcpService m))"
proof -
  from assms obtain resources where r: "exploreResources (explorerService m) = Inr resources"
    by (cases "exploreResources (explorerService m)") (simp_all add: registerMcpHandlers_def)
  from assms r obtain m1 where m1: "register_resources uriTemplateError resources m = Inr m1"
    by (cases "register_resources uriTemplateError resources m")
       (simp_all add: registerMcpHandlers_def)
  from assms r m1 obtain tools where t: "exploreTools (explorerService m1) = Inr tools"
    by (cases "exploreTools (explorerService m1)") (simp_all add: registerMcpHandlers_def)
  from assms r m1 t obtain prompts where
    p: "explorePrompts (explorerService (register_tools tools m1)) = Inr prompts"
    by (cases "explorePrompts (explorerService (register_tools tools m1))")
       (simp_all add: registerMcpHandlers_def Let_def)
  from assms r m1 t p have "m' = register_prompts prompts (register_tools tools m1)"
    by (simp add: registerMcpHandlers_def Let_def)
  then show ?thesis
    using register_resources_frame [OF m1] register_tools_frame [of tools m1]
      register_prompts_frame [of prompts "register_tools tools m1"]
    by simp
qed

text \<open>
  C9, as amended.  Provided discovery and registration return, the hook returns too, and
  the engine receives one connect call with a stdio transport exactly when the configured
  transport is \<open>stdio\<close>; for every other setting, and for none, it receives no connect
  call.  A connect that fails is logged as an error, the registrations stay as they were,
  and the hook still ends with its last log line.
\<close>

theorem bootstrap_connects_only_stdio:
  assumes "registerMcpHandlers uriTemplateError
             (module_log Log ''Bootstrapping MCP Module...'' m) = Inr m2"
  shows "\<exists>m'. onApplicationBootstrap uriTemplateError connect_stdio m = Inr m'
     \<and> connect_calls (server (mcpService m')) =
         connect_calls (server (mcpService m)) @
           (if transport (module_options m) = Some STDIO then [Stdio_transport] else [])
     \<and> registered (server (mcpService m')) = registered (server (mcpService m2))
     \<and> module_logger m' =
         module_logger m2 @ [(Log, ''MCP Handlers registered.'')] @
         (if transport (module_options m) = Some STDIO then
            (case connect_stdio (getServer (mcpService m2)) of
               None \<Rightarrow> [(Log, ''McpServer connected to stdio transport.'')]
             | Some error \<Rightarrow> [(Error, ''Failed to connect McpServer to stdio transport:'')])
          else
            [(Log, ''MCP Module configured for non-stdio transport (e.g., SSE/HTTP or custom). No automatic connection needed here.'')]) @
         [(Log, ''MCP Module bootstrapped successfully.'')]"
proof -
  from registerMcpHandlers_frame [OF assms]
  have opts: "module_options m2 = module_options m"
    and calls: "connect_calls (server (mcpService m2)) = connect_calls (server (mcpService m))"
    by (simp_all add: module_log_def)
  show ?thesis
  proof (cases "transport (module_options m) = Some STDIO")
    case True
    show ?thesis
      using assms opts calls True
      by (cases "connect_stdio (getServer (mcpService m2))")
         (simp_all add: onApplicationBootstrap_def module_log_def getServer_def Let_def)
  next
    case False
    show ?thesis
      using assms opts calls False
      by (simp add: onApplicationBootstrap_def module_log_def getServer_def Let_def)
  qed
qed

lemmas bootstrap_eval =
  registerMcpHandlers_def exploreResources_def exploreTools_def explorePrompts_def explore_def
  stdio_module_def quiet_explorer_def skipped_components_def good_component_def
  picky_reflector_def add_metadata_def module_log_def Let_def registerTool_def truthy_def
  shape_nonempty_def log_to_def engine_register_def svc0_simps

theorem bootstrap_connects_only_stdio_witness:
  "(\<exists>m2. registerMcpHandlers brace_check (module_log Log ''Bootstrapping MCP Module...'' stdio_module) =
           Inr m2)
   \<and> (\<exists>m'. onApplicationBootstrap brace_check refusing_connect stdio_module = Inr m' \<and>
         connect_calls (server (mcpService m')) = [Stdio_transport] \<and>
         registered (server (mcpService m')) = [Tool_plain ''add'' 2] \<and>
         last (butlast (module_logger m')) =
           (Error, ''Failed to connect McpServer to stdio transport:''))"
proof -
  have ex: "\<exists>m2. registerMcpHandlers brace_check
      (module_log Log ''Bootstrapping MCP Module...'' stdio_module) = Inr m2"
    by (simp add: bootstrap_eval)
  then obtain m2 where m2: "registerMcpHandlers brace_check
      (module_log Log ''Bootstrapping MCP Module...'' stdio_module) = Inr m2" ..
  have "map_sum id (\<lambda>m. registered (server (mcpService m)))
      (registerMcpHandlers brace_check (module_log Log ''Bootstrapping MCP Module...'' stdio_module)) =
      Inr [Tool_plain ''add'' 2]"
    by (simp add: bootstrap_eval)
  with m2 have reg: "registered (server (mcpService m2)) = [Tool_plain ''add'' 2]"
    by simp
  from bootstrap_connects_only_stdio [OF m2, of refusing_connect]
  obtain m' where run: "onApplicationBootstrap brace_check refusing_connect stdio_module = Inr m'"
    and calls: "connect_calls (server (mcpService m')) =
         connect_calls (server (mcpService stdio_module)) @
           (if transport (module_options stdio_module) = Some STDIO then [Stdio_transport]
            else [])"
    and regs: "registered (server (mcpService m')) = registered (server (mcpService m2))"
    and logs: "module_logger m' =
         module_logger m2 @ [(Log, ''MCP Handlers registered.'')] @
         (if transport (module_options stdio_module) = Some STDIO then
            (case refusing_connect (getServer (mcpService m2)) of
               None \<Rightarrow> [(Log, ''McpServer connected to stdio transport.'')]
             | Some error \<Rightarrow> [(Error, ''Failed to connect McpServer to stdio transport:'')])
          else
            [(Log, ''MCP Module configured for non-stdio transport (e.g., SSE/HTTP or custom). No automatic connection needed here.'')]) @
         [(Log, ''MCP Module bootstrapped successfully.'')]"
    by (elim exE conjE)
  have c: "connect_calls (server (mcpService m')) = [Stdio_transport]"
    using calls by (simp add: stdio_module_def svc0_simps)
  have r: "registered (server (mcpService m')) = [Tool_plain ''add'' 2]"
    using regs reg by simp
  have l: "last (butlast (module_logger m')) =
           (Error, ''Failed to connect McpServer to stdio transport:'')"
    unfolding logs by (simp add: stdio_module_def refusing_connect_def butlast_append)
  have "\<exists>m'. onApplicationBootstrap brace_check refusing_connect stdio_module = Inr m' \<and>
         connect_calls (server (mcpService m')) = [Stdio_transport] \<and>
         registered (server (mcpService m')) = [Tool_plain ''add'' 2] \<and>
         last (butlast (module_logger m')) =
           (Error, ''Failed to connect McpServer to stdio transport:'')"
    using run c r l by (intro conjI exI [of _ m'])
  with ex show ?thesis by (rule conjI)
qed

text \<open>
  The claim as written has the connect call made whenever the transport is \<open>stdio\<close>.
  \<open>registerMcpHandlers\<close> runs before the transport is looked at and outside any
  \<open>try\<close>: when discovery raises, the hook raises with it and no connect is attempted.
\<close>

theorem bootstrap_registration_failure_counterexample:
  "transport (module_options broken_stdio_module) = Some STDIO \<and>
   onApplicationBootstrap brace_check (\<lambda>srv. None) broken_stdio_module = Inl lookup_error"
  by (simp add: onApplicationBootstrap_def registerMcpHandlers_def exploreResources_def
      exploreTools_def explore_def broken_stdio_module_def stdio_module_def quiet_explorer_def
      broken_component_def good_component_def picky_reflector_def module_log_def Let_def)

end
